theory Spec2Isabelle
  imports Complex_Main "HOL-Library.Sublist"
begin

section \<open>Shared data model\<close>

text \<open>
  Exceptions of the Python source are values: every function that can raise returns
  \<open>error + 'a\<close>, with \<open>Inl\<close> for the exception.
\<close>

datatype error =
    ValueError | TypeError | IndexError | AttributeError
  | UnbalancedReaction | SolventsDontMatch

type_synonym vec3 = "real \<times> real \<times> real"

record atom =
  label :: string
  coord :: vec3

text \<open>A bond is a pair of atom indices (\<open>fbond[0]\<close>, \<open>fbond[1]\<close>).\<close>

type_synonym bond = "nat \<times> nat"

text \<open>
  \<open>autode.bond_rearrangement.BondRearrangement\<close>: the two lists of forming and breaking
  bonds.
\<close>

record bond_rearrangement =
  fbonds :: "bond list"
  bbonds :: "bond list"

text \<open>
  Modelled from the spec: the property \<open>n_fbonds\<close> of BondRearrangement, whose class is
  defined in another module: the number of its forming bonds.
\<close>

definition n_fbonds :: "bond_rearrangement \<Rightarrow> nat" where
  "n_fbonds br = length (fbonds br)"

text \<open>
  Modelled from the spec: the property \<open>n_bbonds\<close> of BondRearrangement, whose class is
  defined in another module: the number of its breaking bonds.
\<close>

definition n_bbonds :: "bond_rearrangement \<Rightarrow> nat" where
  "n_bbonds br = length (bbonds br)"

text \<open>
  Modelled from the spec: the property \<open>all\<close> of BondRearrangement, whose class is defined
  in another module: all the active bonds, forming and breaking.
\<close>

definition all_bonds :: "bond_rearrangement \<Rightarrow> bond list" where
  "all_bonds br = fbonds br @ bbonds br"

text \<open>
  Modelled from the spec: the property \<open>active_atoms\<close> of BondRearrangement, whose class
  is defined in another module. The spec has it as "the derived set of active atoms (all
  atoms touched by any pair)".
\<close>

definition active_atoms :: "bond_rearrangement \<Rightarrow> nat list" where
  "active_atoms br = concat (map (\<lambda>b. [fst b, snd b]) (all_bonds br))"

text \<open>Molecules as \<open>Reaction\<close> reads them; \<open>mol_class\<close> is what \<open>isinstance\<close> tests.\<close>

datatype mol_class = Reactant | Product | Molecule

record molecule =
  mol_name :: string
  mol_class :: mol_class
  mol_n_atoms :: nat
  mol_charge :: int
  mol_solvent :: "string option"
  mol_n_edges :: nat

text \<open>\<open>ReactantComplex\<close> and \<open>ProductComplex\<close>, with the attributes the search reads.\<close>

record complex =
  complex_name :: string
  complex_atoms :: "atom list"
  molecules :: "molecule list"

datatype reaction_type = Addition | Dissociation | Substitution | Elimination | Rearrangement

text \<open>
  \<open>autode.reaction.Reaction\<close>. The type of transition states is a parameter: the classes
  \<open>TSGuess\<close> and \<open>TransitionState\<close> are defined in other modules.
\<close>

record 'ts reaction =
  reaction_name :: string
  reacs :: "molecule list"
  prods :: "molecule list"
  reaction_ts :: "'ts option"
  reaction_tss :: "'ts list option"
  rtype :: reaction_type
  reaction_solvent :: "string option"
  reaction_charge :: int
  switched_reacs_prods :: bool

section \<open>Strings\<close>

text \<open>\<open>str(n)\<close> of a non-negative integer, as the f-strings of the scan names format it.\<close>

function str_nat :: "nat \<Rightarrow> string" where
  "str_nat n =
     (if n < 10 then [''0123456789'' ! n]
      else str_nat (n div 10) @ [''0123456789'' ! (n mod 10)])"
  by pat_completeness auto
termination
  by (relation "measure id") auto

declare str_nat.simps [simp del]

text \<open>\<open>sep.join(xs)\<close>.\<close>

fun join :: "string \<Rightarrow> string list \<Rightarrow> string" where
  "join sep [] = []"
| "join sep [x] = x"
| "join sep (x # y # ys) = x @ sep @ join sep (y # ys)"

section \<open>The strategy generator of \<open>locate_tss.py\<close>\<close>

datatype est_method = Lmethod | Hmethod

datatype opt_keywords = Low_opt | Opt

text \<open>
  One constructor per function the generator yields, with the parameter tuple it is
  yielded with. The last argument of a 2-D scan is the optional trailing \<open>3\<close> of the
  high-level scans.
\<close>

datatype strategy =
    Get_template_ts_guess complex complex bond_rearrangement est_method opt_keywords
  | Get_ts_guess_1d complex complex bond nat string est_method opt_keywords real
  | Get_ts_guess_2d complex complex bond bond nat string est_method opt_keywords real real "nat option"

text \<open>
  A Python generator, run lazily: it ends (\<open>Stop\<close>), raises, or yields an item and
  continues only when the consumer asks for the next one.
\<close>

datatype 'a gen = Stop | Raise error | Yield 'a "'a gen"

text \<open>Two consecutive pieces of a generator body.\<close>

fun gen_then :: "'a gen \<Rightarrow> 'a gen \<Rightarrow> 'a gen" where
  "gen_then Stop g = g"
| "gen_then (Raise e) g = Raise e"
| "gen_then (Yield x r) g = Yield x (gen_then r g)"

text \<open>The items a generator yields when it is run to its end or to its exception.\<close>

fun yielded :: "'a gen \<Rightarrow> 'a list" where
  "yielded Stop = []"
| "yielded (Raise e) = []"
| "yielded (Yield x r) = x # yielded r"

fun raised :: "'a gen \<Rightarrow> error option" where
  "raised Stop = None"
| "raised (Raise e) = Some e"
| "raised (Yield x r) = raised r"

text \<open>
  The functions of other modules that the generator calls: \<open>reactant.get_distance\<close> and
  \<open>autode.bond_lengths.get_avg_bond_length\<close>.
\<close>

record scan_env =
  get_distance :: "complex \<Rightarrow> nat \<Rightarrow> nat \<Rightarrow> real"
  get_avg_bond_length :: "string \<Rightarrow> string \<Rightarrow> real"

definition get_added_bbond_dist :: "'ts reaction \<Rightarrow> real" where
  "get_added_bbond_dist reaction =
     (if list_ex (\<lambda>mol. mol_charge mol \<noteq> 0) (prods reaction) then 5 / 2 else 3 / 2)"

text \<open>\<open>reactant.atoms[i].label\<close>: a list index out of range raises.\<close>

definition atom_label :: "complex \<Rightarrow> nat \<Rightarrow> error + string" where
  "atom_label c i =
     (if i < length (complex_atoms c) then Inr (label (complex_atoms c ! i))
      else Inl IndexError)"

text \<open>
  \<open>get_avg_bond_length(atom_i_label=reactant.atoms[b[0]].label,
  atom_j_label=reactant.atoms[b[1]].label)\<close>
\<close>

definition avg_bond_length_of :: "'e scan_env_scheme \<Rightarrow> complex \<Rightarrow> bond \<Rightarrow> error + real" where
  "avg_bond_length_of env reactant b =
     (case atom_label reactant (fst b) of
        Inl e \<Rightarrow> Inl e
      | Inr li \<Rightarrow>
          (case atom_label reactant (snd b) of
             Inl e \<Rightarrow> Inl e
           | Inr lj \<Rightarrow> Inr (get_avg_bond_length env li lj)))"

text \<open>\<open>f'_{b[0]}-{b[1]}'\<close>\<close>

definition bond_str :: "bond \<Rightarrow> string" where
  "bond_str b = ''_'' @ str_nat (fst b) @ ''-'' @ str_nat (snd b)"

definition base_name :: "'ts reaction \<Rightarrow> string" where
  "base_name reaction =
     reaction_name reaction @ ''_'' @ join ''+'' (map mol_name (reacs reaction)) @ ''--''
       @ join ''+'' (map mol_name (prods reaction))"

text \<open>
  The body of \<open>get_ts_guess_function_and_params\<close> after the template strategy, one
  definition per \<open>if\<close> block, in the order of the source.
\<close>

definition scans_1f1b ::
  "'e scan_env_scheme \<Rightarrow> 'ts reaction \<Rightarrow> complex \<Rightarrow> complex \<Rightarrow> bond_rearrangement \<Rightarrow> strategy gen" where
  "scans_1f1b env reaction reactant product bond_rearr =
     (if n_bbonds bond_rearr = 1 \<and> n_fbonds bond_rearr = 1
         \<and> rtype reaction \<in> {Substitution, Elimination}
      then
        (let bbond = bbonds bond_rearr ! 0;
             fbond = fbonds bond_rearr ! 0;
             scan_name = base_name reaction @ bond_str fbond @ bond_str bbond;
             bbond_final_dist = get_distance env reactant (fst bbond) (snd bbond)
                                  + get_added_bbond_dist reaction
         in case avg_bond_length_of env reactant fbond of
              Inl e \<Rightarrow> Raise e
            | Inr fbond_final_dist \<Rightarrow>
                Yield (Get_ts_guess_2d reactant product fbond bbond 12 (scan_name @ ''_ll2d'')
                         Lmethod Low_opt fbond_final_dist bbond_final_dist None)
               (Yield (Get_ts_guess_1d reactant product bbond 12 (scan_name @ ''_hl1d_bbond'')
                         Hmethod Low_opt bbond_final_dist)
               (Yield (Get_ts_guess_1d reactant product bbond 12
                         (scan_name @ ''_hl1d_opt_level_bbond'') Hmethod Opt bbond_final_dist)
                Stop)))
      else Stop)"

definition scans_1f ::
  "'e scan_env_scheme \<Rightarrow> 'ts reaction \<Rightarrow> complex \<Rightarrow> complex \<Rightarrow> bond_rearrangement \<Rightarrow> strategy gen" where
  "scans_1f env reaction reactant product bond_rearr =
     (if n_bbonds bond_rearr > 0 \<and> n_fbonds bond_rearr = 1
      then
        (let fbond = fbonds bond_rearr ! 0;
             scan_name = base_name reaction @ bond_str fbond
         in case avg_bond_length_of env reactant fbond of
              Inl e \<Rightarrow> Raise e
            | Inr fbond_final_dist \<Rightarrow>
                Yield (Get_ts_guess_1d reactant product fbond 10 (scan_name @ ''_hl1d_fbond'')
                         Hmethod Low_opt fbond_final_dist)
               (Yield (Get_ts_guess_1d reactant product fbond 12
                         (scan_name @ ''_hl1d_opt_level_fbond'') Hmethod Opt fbond_final_dist)
                Stop))
      else Stop)"

fun scans_pairs_inner ::
  "'e scan_env_scheme \<Rightarrow> 'ts reaction \<Rightarrow> complex \<Rightarrow> complex \<Rightarrow> bond \<Rightarrow> bond list \<Rightarrow> strategy gen" where
  "scans_pairs_inner env reaction reactant product fbond [] = Stop"
| "scans_pairs_inner env reaction reactant product fbond (bbond # rest) =
     (let scan_name = base_name reaction @ bond_str fbond @ bond_str bbond
      in case avg_bond_length_of env reactant fbond of
           Inl e \<Rightarrow> Raise e
         | Inr fbond_final_dist \<Rightarrow>
             (let bbond_final_dist = get_distance env reactant (fst bbond) (snd bbond)
                                       + get_added_bbond_dist reaction
              in Yield (Get_ts_guess_2d reactant product fbond bbond 12 (scan_name @ ''_ll2d'')
                          Lmethod Low_opt fbond_final_dist bbond_final_dist None)
                (Yield (Get_ts_guess_2d reactant product fbond bbond 8 (scan_name @ ''_hl2d'')
                          Hmethod Low_opt fbond_final_dist bbond_final_dist (Some 3))
                 (scans_pairs_inner env reaction reactant product fbond rest))))"

fun scans_pairs_outer ::
  "'e scan_env_scheme \<Rightarrow> 'ts reaction \<Rightarrow> complex \<Rightarrow> complex \<Rightarrow> bond list \<Rightarrow> bond list \<Rightarrow> strategy gen" where
  "scans_pairs_outer env reaction reactant product [] bs = Stop"
| "scans_pairs_outer env reaction reactant product (fbond # rest) bs =
     gen_then (scans_pairs_inner env reaction reactant product fbond bs)
       (scans_pairs_outer env reaction reactant product rest bs)"

definition scans_pairs ::
  "'e scan_env_scheme \<Rightarrow> 'ts reaction \<Rightarrow> complex \<Rightarrow> complex \<Rightarrow> bond_rearrangement \<Rightarrow> strategy gen" where
  "scans_pairs env reaction reactant product bond_rearr =
     (if n_bbonds bond_rearr \<ge> 1 \<and> n_fbonds bond_rearr \<ge> 1
      then scans_pairs_outer env reaction reactant product (fbonds bond_rearr) (bbonds bond_rearr)
      else Stop)"

definition scans_1b ::
  "'e scan_env_scheme \<Rightarrow> 'ts reaction \<Rightarrow> complex \<Rightarrow> complex \<Rightarrow> bond_rearrangement \<Rightarrow> strategy gen" where
  "scans_1b env reaction reactant product bond_rearr =
     (if n_bbonds bond_rearr = 1 \<and> n_fbonds bond_rearr = 0
      then
        (let bbond = bbonds bond_rearr ! 0;
             scan_name = base_name reaction @ bond_str bbond;
             bbond_final_dist = get_distance env reactant (fst bbond) (snd bbond)
                                  + get_added_bbond_dist reaction
         in Yield (Get_ts_guess_1d reactant product bbond 12 (scan_name @ ''_hl1d'')
                     Hmethod Low_opt bbond_final_dist)
           (Yield (Get_ts_guess_1d reactant product bbond 12 (scan_name @ ''_hl1d_opt_level'')
                     Hmethod Opt bbond_final_dist)
            Stop))
      else Stop)"

definition scans_2f ::
  "'e scan_env_scheme \<Rightarrow> 'ts reaction \<Rightarrow> complex \<Rightarrow> complex \<Rightarrow> bond_rearrangement \<Rightarrow> strategy gen" where
  "scans_2f env reaction reactant product bond_rearr =
     (if n_fbonds bond_rearr = 2
      then
        (let fbond1 = fbonds bond_rearr ! 0;
             fbond2 = fbonds bond_rearr ! 1;
             scan_name = base_name reaction @ bond_str fbond1 @ bond_str fbond2
         in case avg_bond_length_of env reactant fbond1 of
              Inl e \<Rightarrow> Raise e
            | Inr fbond_final_dist1 \<Rightarrow>
                (case avg_bond_length_of env reactant fbond2 of
                   Inl e \<Rightarrow> Raise e
                 | Inr fbond_final_dist2 \<Rightarrow>
                     Yield (Get_ts_guess_2d reactant product fbond1 fbond2 12
                              (scan_name @ ''_ll2d_fbonds'') Lmethod Low_opt
                              fbond_final_dist1 fbond_final_dist2 None)
                    (Yield (Get_ts_guess_2d reactant product fbond1 fbond2 8
                              (scan_name @ ''_hl2d_fbonds'') Hmethod Low_opt
                              fbond_final_dist1 fbond_final_dist2 (Some 3))
                     Stop)))
      else Stop)"

definition scans_2b ::
  "'e scan_env_scheme \<Rightarrow> 'ts reaction \<Rightarrow> complex \<Rightarrow> complex \<Rightarrow> bond_rearrangement \<Rightarrow> strategy gen" where
  "scans_2b env reaction reactant product bond_rearr =
     (if n_bbonds bond_rearr = 2
      then
        (let bbond1 = bbonds bond_rearr ! 0;
             bbond2 = bbonds bond_rearr ! 1;
             scan_name = base_name reaction @ bond_str bbond1 @ bond_str bbond2;
             bbond1_final_dist = get_distance env reactant (fst bbond1) (snd bbond2)
                                   + get_added_bbond_dist reaction + get_added_bbond_dist reaction;
             bbond2_final_dist = get_distance env reactant (fst bbond1) (snd bbond2)
                                   + get_added_bbond_dist reaction + get_added_bbond_dist reaction
         in Yield (Get_ts_guess_2d reactant product bbond1 bbond2 12
                     (scan_name @ ''_ll2d_bbonds'') Lmethod Low_opt
                     bbond1_final_dist bbond2_final_dist None)
           (Yield (Get_ts_guess_2d reactant product bbond1 bbond2 8
                     (scan_name @ ''_hl2d_bbonds'') Hmethod Low_opt
                     bbond1_final_dist bbond2_final_dist (Some 3))
            Stop))
      else Stop)"

definition get_ts_guess_function_and_params ::
  "'e scan_env_scheme \<Rightarrow> 'ts reaction \<Rightarrow> complex \<Rightarrow> complex \<Rightarrow> bond_rearrangement \<Rightarrow> strategy gen" where
  "get_ts_guess_function_and_params env reaction reactant product bond_rearr =
     Yield (Get_template_ts_guess reactant product bond_rearr Hmethod Low_opt)
       (gen_then (scans_1f1b env reaction reactant product bond_rearr)
       (gen_then (scans_1f env reaction reactant product bond_rearr)
       (gen_then (scans_pairs env reaction reactant product bond_rearr)
       (gen_then (scans_1b env reaction reactant product bond_rearr)
       (gen_then (scans_2f env reaction reactant product bond_rearr)
                 (scans_2b env reaction reactant product bond_rearr))))))"

text \<open>
  How a yielded strategy is recognised: by the function it calls and by the suffix of the
  scan name the source gives it.
\<close>

fun scan_name_of :: "strategy \<Rightarrow> string option" where
  "scan_name_of (Get_template_ts_guess r p br m k) = None"
| "scan_name_of (Get_ts_guess_1d r p b n nm m k d) = Some nm"
| "scan_name_of (Get_ts_guess_2d r p b1 b2 n nm m k d1 d2 po) = Some nm"

fun is_2d_scan :: "strategy \<Rightarrow> bool" where
  "is_2d_scan (Get_ts_guess_2d r p b1 b2 n nm m k d1 d2 po) = True"
| "is_2d_scan s = False"

fun is_1d_scan :: "strategy \<Rightarrow> bool" where
  "is_1d_scan (Get_ts_guess_1d r p b n nm m k d) = True"
| "is_1d_scan s = False"

definition is_two_fbond_scan :: "strategy \<Rightarrow> bool" where
  "is_two_fbond_scan s =
     (is_2d_scan s \<and>
      (case scan_name_of s of None \<Rightarrow> False | Some nm \<Rightarrow> suffix ''2d_fbonds'' nm))"

definition is_two_bbond_scan :: "strategy \<Rightarrow> bool" where
  "is_two_bbond_scan s =
     (is_2d_scan s \<and>
      (case scan_name_of s of None \<Rightarrow> False | Some nm \<Rightarrow> suffix ''2d_bbonds'' nm))"

section \<open>The search of \<open>locate_tss.py\<close>\<close>

text \<open>
  What the search calls in other modules, as parameters: the two complex
  constructors, the bond-rearrangement enumerator, truncation, the outcome of the
  rotation/translation optimisation of \<open>translate_rotate_reactant\<close> (scipy, from random
  starting points), a strategy's function applied to its parameters (\<open>func(*params)\<close>),
  and the methods of TSGuess and TransitionState. \<open>'g\<close> is the type of TS guesses, \<open>'ts\<close>
  the type of transition states.
\<close>

record ('g, 'ts) search_env = scan_env +
  reactant_complex :: "molecule list \<Rightarrow> string \<Rightarrow> complex"
  product_complex :: "molecule list \<Rightarrow> string \<Rightarrow> complex"
  get_bond_rearrangs :: "complex \<Rightarrow> complex \<Rightarrow> string \<Rightarrow> bond_rearrangement list option"
  is_worth_truncating :: "complex \<Rightarrow> bond_rearrangement \<Rightarrow> bool"
  get_truncated_complex :: "complex \<Rightarrow> bond_rearrangement \<Rightarrow> complex"
  rotate_translate :: "complex \<Rightarrow> bond_rearrangement \<Rightarrow> real \<Rightarrow> complex"
  run_strategy :: "strategy \<Rightarrow> 'g option"
  guess_could_have_correct_imag_mode :: "'g \<Rightarrow> bond_rearrangement \<Rightarrow> bool"
  transition_state :: "'g \<Rightarrow> bond_rearrangement \<Rightarrow> 'ts"
  opt_ts :: "'ts \<Rightarrow> 'ts"
  is_true_ts :: "'ts \<Rightarrow> bool"

text \<open>
  \<open>translate_rotate_reactant\<close> changes the reactant complex in place; the model returns
  the complex after the call.
\<close>

definition translate_rotate_reactant ::
  "('g, 'ts, 'e) search_env_scheme \<Rightarrow> complex \<Rightarrow> bond_rearrangement \<Rightarrow> real \<Rightarrow> complex" where
  "translate_rotate_reactant env reactant bond_rearr shift_factor =
     (if length (molecules reactant) < 2 then reactant
      else rotate_translate env reactant bond_rearr shift_factor)"

text \<open>
  The \<open>for\<close> loop of \<open>get_ts\<close> over the strategies. The generator is advanced only when
  the loop asks for the next strategy, so an exception of the generator is met only when
  every earlier strategy has failed. Saving the template of a found transition state
  (\<open>Config.make_ts_template\<close>) writes a file and returns nothing; it is left out.
\<close>

fun get_ts_loop ::
  "('g, 'ts, 'e) search_env_scheme \<Rightarrow> bond_rearrangement \<Rightarrow> strategy gen \<Rightarrow> error + 'ts option" where
  "get_ts_loop env bond_rearr Stop = Inr None"
| "get_ts_loop env bond_rearr (Raise e) = Inl e"
| "get_ts_loop env bond_rearr (Yield s rest) =
     (case run_strategy env s of
        None \<Rightarrow> get_ts_loop env bond_rearr rest
      | Some ts_guess \<Rightarrow>
          if \<not> guess_could_have_correct_imag_mode env ts_guess bond_rearr
          then get_ts_loop env bond_rearr rest
          else if \<not> is_true_ts env (opt_ts env (transition_state env ts_guess bond_rearr))
          then get_ts_loop env bond_rearr rest
          else Inr (Some (opt_ts env (transition_state env ts_guess bond_rearr))))"

text \<open>\<open>get_ts\<close> from the orientation of the reactant on (what it does when it does not truncate).\<close>

definition get_ts_no_strip ::
  "('g, 'ts, 'e) search_env_scheme \<Rightarrow> 'ts reaction \<Rightarrow> complex \<Rightarrow> complex \<Rightarrow> bond_rearrangement
     \<Rightarrow> error + ('ts option \<times> complex)" where
  "get_ts_no_strip env reaction reactant product bond_rearrangement =
     (let reactant' = translate_rotate_reactant env reactant bond_rearrangement
                        (if list_ex (\<lambda>mol. mol_charge mol \<noteq> 0) (reacs reaction) then 3 else 3 / 2)
      in case get_ts_loop env bond_rearrangement
                (get_ts_guess_function_and_params env reaction reactant' product bond_rearrangement) of
           Inl e \<Rightarrow> Inl e
         | Inr found \<Rightarrow> Inr (found, reactant'))"

text \<open>\<open>a -= b\<close> on two Python strings: \<open>str\<close> has no subtraction.\<close>

definition str_isub :: "string \<Rightarrow> string \<Rightarrow> error + string" where
  "str_isub a b = Inl TypeError"

text \<open>The loop of \<open>get_truncated_ts\<close>: \<open>get_ts(..., strip_molecule=False)\<close> on each rearrangement.\<close>

fun truncated_loop ::
  "('g, 'ts, 'e) search_env_scheme \<Rightarrow> 'ts reaction \<Rightarrow> complex \<Rightarrow> complex \<Rightarrow> bond_rearrangement list
     \<Rightarrow> error + complex" where
  "truncated_loop env reaction t_reactant t_product [] = Inr t_reactant"
| "truncated_loop env reaction t_reactant t_product (bond_rearr # rest) =
     (case get_ts_no_strip env reaction t_reactant t_product bond_rearr of
        Inl e \<Rightarrow> Inl e
      | Inr (found, t_reactant') \<Rightarrow> truncated_loop env reaction t_reactant' t_product rest)"

text \<open>
  \<open>get_truncated_ts\<close> returns the reaction with its name restored. Iterating over \<open>None\<close>
  (no rearrangement of the truncated complexes) is a TypeError.
\<close>

definition get_truncated_ts ::
  "('g, 'ts, 'e) search_env_scheme \<Rightarrow> 'ts reaction \<Rightarrow> complex \<Rightarrow> complex \<Rightarrow> bond_rearrangement
     \<Rightarrow> error + 'ts reaction" where
  "get_truncated_ts env reaction reactant product bond_rearr =
     (let t_reactant = get_truncated_complex env reactant bond_rearr;
          t_product = get_truncated_complex env product bond_rearr;
          reaction' = reaction\<lparr>reaction_name := reaction_name reaction @ ''_truncated''\<rparr>
      in case get_bond_rearrangs env t_reactant t_product (reaction_name reaction') of
           None \<Rightarrow> Inl TypeError
         | Some bond_rearrangs \<Rightarrow>
             (case truncated_loop env reaction' t_reactant t_product bond_rearrangs of
                Inl e \<Rightarrow> Inl e
              | Inr t_reactant' \<Rightarrow>
                  (case str_isub (reaction_name reaction') ''_truncated'' of
                     Inl e \<Rightarrow> Inl e
                   | Inr n \<Rightarrow> Inr (reaction'\<lparr>reaction_name := n\<rparr>))))"

definition get_ts ::
  "('g, 'ts, 'e) search_env_scheme \<Rightarrow> 'ts reaction \<Rightarrow> complex \<Rightarrow> complex \<Rightarrow> bond_rearrangement
     \<Rightarrow> bool \<Rightarrow> error + ('ts option \<times> complex)" where
  "get_ts env reaction reactant product bond_rearrangement strip_molecule =
     (if strip_molecule \<and> is_worth_truncating env reactant bond_rearrangement
      then
        (case get_truncated_ts env reaction reactant product bond_rearrangement of
           Inl e \<Rightarrow> Inl e
         | Inr reaction' \<Rightarrow> get_ts_no_strip env reaction' reactant product bond_rearrangement)
      else get_ts_no_strip env reaction reactant product bond_rearrangement)"

text \<open>
  The loop of \<open>find_tss\<close>: the same reactant complex object goes to every \<open>get_ts\<close>, which
  is called with its default \<open>strip_molecule=True\<close>.
\<close>

fun find_tss_loop ::
  "('g, 'ts, 'e) search_env_scheme \<Rightarrow> 'ts reaction \<Rightarrow> complex \<Rightarrow> complex \<Rightarrow> bond_rearrangement list
     \<Rightarrow> 'ts list \<Rightarrow> error + 'ts list" where
  "find_tss_loop env reaction reactant product [] tss = Inr tss"
| "find_tss_loop env reaction reactant product (bond_rearrangement # rest) tss =
     (case get_ts env reaction reactant product bond_rearrangement True of
        Inl e \<Rightarrow> Inl e
      | Inr (found, reactant') \<Rightarrow>
          find_tss_loop env reaction reactant' product rest
            (case found of None \<Rightarrow> tss | Some t \<Rightarrow> tss @ [t]))"

definition find_tss :: "('g, 'ts, 'e) search_env_scheme \<Rightarrow> 'ts reaction \<Rightarrow> error + 'ts list option" where
  "find_tss env reaction =
     (let reactant = reactant_complex env (reacs reaction) ''r'';
          product = product_complex env (prods reaction) ''p''
      in case get_bond_rearrangs env reactant product (reaction_name reaction) of
           None \<Rightarrow> Inr None
         | Some bond_rearrangs \<Rightarrow>
             (case find_tss_loop env reaction reactant product bond_rearrangs [] of
                Inl e \<Rightarrow> Inl e
              | Inr tss \<Rightarrow> if length tss > 0 then Inr (Some tss) else Inr None))"

text \<open>
  What the loop of \<open>get_ts\<close> decides for one strategy: a guess is produced, it passes
  the fast check, and the optimised transition state passes \<open>is_true_ts\<close>; and the
  transition state that is then returned.
\<close>

definition strategy_succeeds ::
  "('g, 'ts, 'e) search_env_scheme \<Rightarrow> bond_rearrangement \<Rightarrow> strategy \<Rightarrow> bool" where
  "strategy_succeeds env bond_rearr s =
     (case run_strategy env s of
        None \<Rightarrow> False
      | Some ts_guess \<Rightarrow>
          guess_could_have_correct_imag_mode env ts_guess bond_rearr
          \<and> is_true_ts env (opt_ts env (transition_state env ts_guess bond_rearr)))"

definition found_ts ::
  "('g, 'ts, 'e) search_env_scheme \<Rightarrow> bond_rearrangement \<Rightarrow> strategy \<Rightarrow> 'ts" where
  "found_ts env bond_rearr s =
     opt_ts env (transition_state env (the (run_strategy env s)) bond_rearr)"

text \<open>A generator that yields the items of a list and then goes on as another one.\<close>

fun gen_prefix :: "'a list \<Rightarrow> 'a gen \<Rightarrow> 'a gen" where
  "gen_prefix [] g = g"
| "gen_prefix (x # xs) g = Yield x (gen_prefix xs g)"

section \<open>\<open>reaction.py\<close>\<close>



text \<open>\<open>xs[0]\<close>\<close>

fun first_item :: "'a list \<Rightarrow> error + 'a" where
  "first_item [] = Inl IndexError"
| "first_item (x # xs) = Inr x"


text \<open>
  \<open>_check_solvent\<close>. When some molecules have a solvent and others have none, neither
  branch sets \<open>self.solvent\<close> and the final log line reads \<open>self.solvent.name\<close> of \<open>None\<close>.
  \<open>self.reacs[0]\<close> is read for each molecule of the comparison.
\<close>

definition set_all_solvents :: "'ts reaction \<Rightarrow> 'ts reaction" where
  "set_all_solvents self =
     self\<lparr>reacs := map (\<lambda>mol. mol\<lparr>mol_solvent := reaction_solvent self\<rparr>) (reacs self),
          prods := map (\<lambda>mol. mol\<lparr>mol_solvent := reaction_solvent self\<rparr>) (prods self)\<rparr>"

definition check_solvent :: "'ts reaction \<Rightarrow> error + 'ts reaction" where
  "check_solvent self =
     (if reaction_solvent self = None
      then
        if list_all (\<lambda>mol. mol_solvent mol = None) (reacs self @ prods self) then Inr self
        else if list_all (\<lambda>mol. mol_solvent mol \<noteq> None) (reacs self @ prods self)
        then
          (case first_item (reacs self) of
             Inl e \<Rightarrow> Inl e
           | Inr r0 \<Rightarrow>
               if \<not> list_all (\<lambda>mol. mol_solvent mol = mol_solvent r0) (reacs self @ prods self)
               then Inl SolventsDontMatch
               else Inr (set_all_solvents (self\<lparr>reaction_solvent := mol_solvent r0\<rparr>)))
        else Inl AttributeError
      else Inr (set_all_solvents self))"

definition check_balance :: "'ts reaction \<Rightarrow> error + 'ts reaction" where
  "check_balance self =
     (let n_reac_atoms = map mol_n_atoms (reacs self);
          n_prod_atoms = map mol_n_atoms (prods self);
          reac_charges = map mol_charge (reacs self);
          prod_charges = map mol_charge (prods self)
      in if sum_list n_reac_atoms \<noteq> sum_list n_prod_atoms then Inl UnbalancedReaction
         else if sum_list reac_charges \<noteq> sum_list prod_charges then Inl UnbalancedReaction
         else Inr (self\<lparr>reaction_charge := sum_list reac_charges\<rparr>))"

definition check_rearrangement :: "'ts reaction \<Rightarrow> 'ts reaction" where
  "check_rearrangement self =
     (let reac_bonds_list = map mol_n_edges (reacs self);
          prod_bonds_list = map mol_n_edges (prods self);
          delta_n_bonds = int (sum_list reac_bonds_list) - int (sum_list prod_bonds_list)
      in if delta_n_bonds < 0
         then self\<lparr>prods := reacs self, reacs := prods self, switched_reacs_prods := True\<rparr>
         else self)"

definition switch_addition :: "'ts reaction \<Rightarrow> 'ts reaction" where
  "switch_addition self =
     self\<lparr>rtype := Dissociation, prods := reacs self, reacs := prods self,
          switched_reacs_prods := True\<rparr>"

text \<open>
  \<open>Reaction.__init__\<close>. \<open>reactions.classify\<close> and \<open>get_solvent\<close> are parameters. The
  attributes as they stand when the checks start (\<open>charge\<close> and \<open>switched_reacs_prods\<close>
  do not exist yet; the record holds 0 and False):
\<close>

record init_env =
  classify :: "molecule list \<Rightarrow> molecule list \<Rightarrow> reaction_type"
  get_solvent :: "string \<Rightarrow> string option"

definition reactants_of :: "molecule option list \<Rightarrow> molecule list" where
  "reactants_of mols = [mol. Some mol \<leftarrow> mols, mol_class mol = Reactant]"

definition products_of :: "molecule option list \<Rightarrow> molecule list" where
  "products_of mols = [mol. Some mol \<leftarrow> mols, mol_class mol = Product]"

definition reaction_start ::
  "init_env \<Rightarrow> molecule option list \<Rightarrow> string \<Rightarrow> string option \<Rightarrow> 'ts reaction" where
  "reaction_start env mols nm solvent_name =
     \<lparr>reaction_name = nm,
      reacs = reactants_of mols,
      prods = products_of mols,
      reaction_ts = None,
      reaction_tss = None,
      rtype = classify env (reactants_of mols) (products_of mols),
      reaction_solvent = (case solvent_name of None \<Rightarrow> None | Some s \<Rightarrow> get_solvent env s),
      reaction_charge = 0,
      switched_reacs_prods = False\<rparr>"

definition reaction_init ::
  "init_env \<Rightarrow> molecule option list \<Rightarrow> string \<Rightarrow> string option \<Rightarrow> error + 'ts reaction" where
  "reaction_init env mols nm solvent_name =
     (case check_solvent (reaction_start env mols nm solvent_name) of
        Inl e \<Rightarrow> Inl e
      | Inr self1 \<Rightarrow>
          (case check_balance self1 of
             Inl e \<Rightarrow> Inl e
           | Inr self2 \<Rightarrow>
               (let self3 = self2\<lparr>switched_reacs_prods := False\<rparr>;
                    self4 = (if rtype self3 = Addition then switch_addition self3 else self3)
                in Inr (if rtype self4 = Rearrangement then check_rearrangement self4 else self4))))"

section \<open>\<open>transition_states/base.py\<close>\<close>

text \<open>
  A Species as the validator reads it. \<open>atoms\<close> may be unset; \<open>imaginary_frequencies\<close>
  and \<open>normal_mode\<close> are what the properties and methods of those names return (the
  Species class, in another module, computes them from the Hessian). A graph is the list
  of its edges.
\<close>

record species =
  species_name :: string
  atoms :: "atom list option"
  species_charge :: int
  mult :: int
  graph :: "bond list option"
  hessian :: "real list list option"
  imaginary_frequencies :: "real list option"
  normal_mode :: "int \<Rightarrow> vec3 list option"

record tsbase = species +
  ts_reactant :: "complex option"
  ts_product :: "complex option"
  bond_rearrangement :: "bond_rearrangement option"

text \<open>
  What the validator calls in other modules, as parameters: \<open>Config.min_imag_freq\<close>, the
  list \<open>autode.atoms.metals\<close>, \<open>make_graph\<close> (with its \<open>rel_tolerance\<close>),
  \<open>Species.distance\<close>, the Hessian calculation, \<open>Species.optimise\<close> (\<open>None\<close> when it
  raises AtomsNotFound) and \<open>species_are_isomorphic\<close>.
\<close>

record ts_env =
  min_imag_freq :: real
  metals :: "string list"
  make_graph :: "real \<Rightarrow> species \<Rightarrow> bond list"
  distance :: "species \<Rightarrow> nat \<Rightarrow> nat \<Rightarrow> real"
  run_hess_calculation :: "est_method \<Rightarrow> tsbase \<Rightarrow> tsbase"
  optimise :: "est_method \<Rightarrow> opt_keywords \<Rightarrow> species \<Rightarrow> species option"
  species_are_isomorphic :: "species \<Rightarrow> complex \<Rightarrow> bool"

subsection \<open>Arrays of coordinates\<close>

definition vadd :: "vec3 \<Rightarrow> vec3 \<Rightarrow> vec3" where
  "vadd u v = (case (u, v) of ((a, b, c), (x, y, z)) \<Rightarrow> (a + x, b + y, c + z))"

definition vsub :: "vec3 \<Rightarrow> vec3 \<Rightarrow> vec3" where
  "vsub u v = (case (u, v) of ((a, b, c), (x, y, z)) \<Rightarrow> (a - x, b - y, c - z))"

definition smul :: "real \<Rightarrow> vec3 \<Rightarrow> vec3" where
  "smul k v = (case v of (x, y, z) \<Rightarrow> (k * x, k * y, k * z))"

text \<open>\<open>np.linalg.norm\<close> of one row.\<close>

definition norm3 :: "vec3 \<Rightarrow> real" where
  "norm3 v = (case v of (x, y, z) \<Rightarrow> sqrt (x * x + y * y + z * z))"

text \<open>\<open>np.max\<close>: the maximum of an empty array is a ValueError.\<close>

fun np_max :: "real list \<Rightarrow> error + real" where
  "np_max [] = Inl ValueError"
| "np_max (x # xs) = Inr (fold max xs x)"

text \<open>\<open>np.max(np.linalg.norm(coords - disp_coords, axis=1))\<close>\<close>

definition max_atom_displacement :: "vec3 list \<Rightarrow> vec3 list \<Rightarrow> error + real" where
  "max_atom_displacement coords disp_coords =
     np_max (map2 (\<lambda>c d. norm3 (vsub c d)) coords disp_coords)"

text \<open>
  The \<open>for _ in range(20)\<close> loop of \<open>displaced_species_along_mode\<close>; the first argument
  is the number of iterations left.
\<close>

fun shrink_displacement ::
  "nat \<Rightarrow> vec3 list \<Rightarrow> vec3 list \<Rightarrow> real \<Rightarrow> vec3 list \<Rightarrow> real \<Rightarrow> error + vec3 list" where
  "shrink_displacement 0 coords disp_coords disp_factor mode_disp_coords max_atom_disp =
     Inr disp_coords"
| "shrink_displacement (Suc n) coords disp_coords disp_factor mode_disp_coords max_atom_disp =
     (case max_atom_displacement coords disp_coords of
        Inl e \<Rightarrow> Inl e
      | Inr m \<Rightarrow>
          if m < max_atom_disp then Inr disp_coords
          else shrink_displacement n coords
                 (map2 (\<lambda>d m. vsub d (smul (disp_factor / 20) m)) disp_coords mode_disp_coords)
                 disp_factor mode_disp_coords max_atom_disp)"

text \<open>
  \<open>displaced_species_along_mode\<close>. \<open>species.coordinates\<close> is \<open>None\<close> when the atoms are
  not set, and \<open>coords.copy()\<close> then raises. The normal mode is an array of the shape of
  the coordinates; adding arrays of two different numbers of rows is reported as a
  ValueError (numpy would first try to broadcast a single row). The new Species has the
  atoms of the old one at the displaced coordinates and nothing computed.
\<close>

definition displaced_species_along_mode ::
  "'a species_scheme \<Rightarrow> int \<Rightarrow> real \<Rightarrow> real \<Rightarrow> error + species option" where
  "displaced_species_along_mode sp mode_number disp_factor max_atom_disp =
     (case normal_mode sp mode_number of
        None \<Rightarrow> Inr None
      | Some mode_disp_coords \<Rightarrow>
          (case atoms sp of
             None \<Rightarrow> Inl AttributeError
           | Some ats \<Rightarrow>
               if length mode_disp_coords \<noteq> length ats then Inl ValueError
               else
                 (let coords = map coord ats;
                      disp_coords = map2 (\<lambda>c m. vadd c (smul disp_factor m)) coords mode_disp_coords
                  in case shrink_displacement 20 coords disp_coords disp_factor mode_disp_coords
                            max_atom_disp of
                       Inl e \<Rightarrow> Inl e
                     | Inr disp_coords' \<Rightarrow>
                         Inr (Some
                           \<lparr>species_name = species_name sp @ ''_disp'',
                            atoms = Some (map2 (\<lambda>a c. a\<lparr>coord := c\<rparr>) ats disp_coords'),
                            species_charge = species_charge sp,
                            mult = mult sp,
                            graph = None,
                            hessian = None,
                            imaginary_frequencies = None,
                            normal_mode = (\<lambda>n. None)\<rparr>))))"

subsection \<open>Bonds made or broken outside the active atoms\<close>

text \<open>\<open>bond in graph.edges\<close> of an undirected graph.\<close>

definition has_edge :: "bond list \<Rightarrow> bond \<Rightarrow> bool" where
  "has_edge edges b = (b \<in> set edges \<or> (snd b, fst b) \<in> set edges)"

text \<open>
  The filter of \<open>allow_mx\<close>: \<open>_ts.atoms[i].label not in metals and
  _ts.atoms[j].label not in metals\<close>; the second index is read only when the first atom is
  no metal.
\<close>

fun no_metal_bonds :: "string list \<Rightarrow> atom list \<Rightarrow> bond list \<Rightarrow> error + bond list" where
  "no_metal_bonds ms ats [] = Inr []"
| "no_metal_bonds ms ats ((i, j) # rest) =
     (if i \<ge> length ats then Inl IndexError
      else if label (ats ! i) \<in> set ms then no_metal_bonds ms ats rest
      else if j \<ge> length ats then Inl IndexError
      else
        (case no_metal_bonds ms ats rest of
           Inl e \<Rightarrow> Inl e
         | Inr kept \<Rightarrow> Inr (if label (ats ! j) \<in> set ms then kept else (i, j) # kept)))"

text \<open>One turn of the loop \<open>for product in (f_species, b_species)\<close>: does it return True?\<close>

definition product_has_other_bonds ::
  "ts_env \<Rightarrow> tsbase \<Rightarrow> bond list \<Rightarrow> bond list \<Rightarrow> bool \<Rightarrow> error + bool" where
  "product_has_other_bonds env ts_copy ts_edges product_edges allow_mx =
     (let new_bonds_in_product = filter (\<lambda>bond. \<not> has_edge ts_edges bond) product_edges
      in case (if allow_mx
               then (case atoms ts_copy of
                       None \<Rightarrow> (if new_bonds_in_product = [] then Inr [] else Inl TypeError)
                     | Some ats \<Rightarrow> no_metal_bonds (metals env) ats new_bonds_in_product)
               else Inr new_bonds_in_product) of
           Inl e \<Rightarrow> Inl e
         | Inr new_bonds \<Rightarrow>
             (case bond_rearrangement ts_copy of
                None \<Rightarrow> Inl AttributeError
              | Some br \<Rightarrow>
                  Inr (\<not> list_all (\<lambda>a. a \<in> set (active_atoms br))
                           (concat (map (\<lambda>b. [fst b, snd b]) new_bonds)))))"

text \<open>
  \<open>imag_mode_generates_other_bonds\<close>: the graphs of the copy of the TS and of the two
  displaced species are rebuilt with \<open>rel_tolerance=0.3\<close>.
\<close>

definition imag_mode_generates_other_bonds ::
  "ts_env \<Rightarrow> tsbase \<Rightarrow> species \<Rightarrow> species \<Rightarrow> bool \<Rightarrow> error + bool" where
  "imag_mode_generates_other_bonds env ts f_species b_species allow_mx =
     (let ts_edges = make_graph env (3 / 10) (species.truncate ts);
          f_edges = make_graph env (3 / 10) f_species;
          b_edges = make_graph env (3 / 10) b_species
      in case product_has_other_bonds env ts ts_edges f_edges allow_mx of
           Inl e \<Rightarrow> Inl e
         | Inr True \<Rightarrow> Inr True
         | Inr False \<Rightarrow>
             (case product_has_other_bonds env ts ts_edges b_edges allow_mx of
                Inl e \<Rightarrow> Inl e
              | Inr True \<Rightarrow> Inr True
              | Inr False \<Rightarrow> Inr False))"

subsection \<open>The displacement check\<close>

text \<open>The list \<open>fbond_bbond_correct_disps\<close> for one displaced species.\<close>

definition correct_disps ::
  "ts_env \<Rightarrow> tsbase \<Rightarrow> bond_rearrangement \<Rightarrow> species \<Rightarrow> real \<Rightarrow> bool list" where
  "correct_disps env self br product delta_threshold =
     map (\<lambda>fbond. distance env (species.truncate self) (fst fbond) (snd fbond)
                    - distance env product (fst fbond) (snd fbond) > delta_threshold)
         (fbonds br)
     @ map (\<lambda>bbond. distance env product (fst bbond) (snd bbond)
                      - distance env (species.truncate self) (fst bbond) (snd bbond)
                        > delta_threshold)
           (bbonds br)"

text \<open>The loop \<open>for product in (f_species, b_species)\<close> and the final \<open>return False\<close>.\<close>

fun products_have_correct_disps ::
  "ts_env \<Rightarrow> tsbase \<Rightarrow> bond_rearrangement \<Rightarrow> real \<Rightarrow> bool \<Rightarrow> species list \<Rightarrow> bool" where
  "products_have_correct_disps env self br delta_threshold req_all [] = False"
| "products_have_correct_disps env self br delta_threshold req_all (product # rest) =
     (let fbond_bbond_correct_disps = correct_disps env self br product delta_threshold
      in if list_all (\<lambda>b. b) fbond_bbond_correct_disps \<and> req_all then True
         else if \<not> req_all \<and> list_ex (\<lambda>b. b) fbond_bbond_correct_disps then True
         else products_have_correct_disps env self br delta_threshold req_all rest)"

text \<open>
  \<open>imag_mode_has_correct_displacement\<close>. When the species has no normal mode 6 the
  displaced species are \<open>None\<close> and the first attribute read of one raises.
\<close>

definition imag_mode_has_correct_displacement ::
  "ts_env \<Rightarrow> tsbase \<Rightarrow> real \<Rightarrow> real \<Rightarrow> bool \<Rightarrow> error + bool" where
  "imag_mode_has_correct_displacement env self disp_mag delta_threshold req_all =
     (case displaced_species_along_mode self 6 disp_mag (1 / 2) of
        Inl e \<Rightarrow> Inl e
      | Inr f \<Rightarrow>
          (case displaced_species_along_mode self 6 (- disp_mag) (1 / 2) of
             Inl e \<Rightarrow> Inl e
           | Inr b \<Rightarrow>
               (case (f, b) of
                  (Some f_species, Some b_species) \<Rightarrow>
                    (case imag_mode_generates_other_bonds env self f_species b_species True of
                       Inl e \<Rightarrow> Inl e
                     | Inr True \<Rightarrow> Inr False
                     | Inr False \<Rightarrow>
                         (case bond_rearrangement self of
                            None \<Rightarrow> Inl AttributeError
                          | Some br \<Rightarrow>
                              Inr (products_have_correct_disps env self br delta_threshold
                                     req_all [f_species, b_species])))
                | _ \<Rightarrow> Inl AttributeError)))"

subsection \<open>The two checks of the imaginary mode\<close>

text \<open>
  \<open>could_have_correct_imag_mode\<close>. The Hessian calculation changes the object; the
  frequencies and the displacement check are those of the object after it.
\<close>

definition with_hessian :: "ts_env \<Rightarrow> tsbase \<Rightarrow> tsbase" where
  "with_hessian env self =
     (if hessian self = None then run_hess_calculation env Hmethod self else self)"

definition could_have_correct_imag_mode :: "ts_env \<Rightarrow> tsbase \<Rightarrow> error + bool" where
  "could_have_correct_imag_mode env self =
     (if bond_rearrangement self = None then Inl ValueError
      else
        (let self' = with_hessian env self
         in case imaginary_frequencies self' of
              None \<Rightarrow> Inr False
            | Some imag_freqs \<Rightarrow>
                (case first_item imag_freqs of
                   Inl e \<Rightarrow> Inl e
                 | Inr freq0 \<Rightarrow>
                     if freq0 > min_imag_freq env then Inr False
                     else
                       (case imag_mode_has_correct_displacement env self' 1 (5 / 100) False of
                          Inl e \<Rightarrow> Inl e
                        | Inr ok \<Rightarrow> if \<not> ok then Inr False else Inr True))))"

text \<open>\<open>f_b_isomorphic_to_r_p\<close>\<close>

definition f_b_isomorphic_to_r_p :: "ts_env \<Rightarrow> species \<Rightarrow> species \<Rightarrow> complex \<Rightarrow> complex \<Rightarrow> bool" where
  "f_b_isomorphic_to_r_p env forwards backwards reactant product =
     (if atoms forwards = None \<or> atoms backwards = None then False
      else if species_are_isomorphic env backwards reactant
              \<and> species_are_isomorphic env forwards product then True
      else if species_are_isomorphic env forwards reactant
              \<and> species_are_isomorphic env backwards product then True
      else False)"

text \<open>
  The loop \<open>for m in (get_hmethod(), get_lmethod())\<close> of
  \<open>imag_mode_links_reactant_products\<close>: both displaced species are optimised in place, a
  failed optimisation ends the check with False.
\<close>

fun links_with_methods ::
  "ts_env \<Rightarrow> species \<Rightarrow> species \<Rightarrow> complex \<Rightarrow> complex \<Rightarrow> est_method list \<Rightarrow> bool" where
  "links_with_methods env f_mol b_mol reactant product [] = False"
| "links_with_methods env f_mol b_mol reactant product (m # rest) =
     (case optimise env m Low_opt f_mol of
        None \<Rightarrow> False
      | Some f_mol' \<Rightarrow>
          (case optimise env m Low_opt b_mol of
             None \<Rightarrow> False
           | Some b_mol' \<Rightarrow>
               if f_b_isomorphic_to_r_p env f_mol' b_mol' reactant product then True
               else links_with_methods env f_mol' b_mol' reactant product rest))"

text \<open>
  \<open>imag_mode_links_reactant_products\<close>. Generating the conformers of reactant and
  product returns nothing that the check reads. Naming a displaced species that is
  \<open>None\<close> raises.
\<close>

definition imag_mode_links_reactant_products :: "ts_env \<Rightarrow> tsbase \<Rightarrow> real \<Rightarrow> error + bool" where
  "imag_mode_links_reactant_products env self disp_mag =
     (case (ts_reactant self, ts_product self) of
        (Some reactant, Some product) \<Rightarrow>
          (case displaced_species_along_mode self 6 disp_mag (2 / 10) of
             Inl e \<Rightarrow> Inl e
           | Inr None \<Rightarrow> Inl AttributeError
           | Inr (Some f) \<Rightarrow>
               (let f_mol = f\<lparr>species_name := species_name self @ ''_forwards''\<rparr>
                in case displaced_species_along_mode self 6 (- disp_mag) (2 / 10) of
                     Inl e \<Rightarrow> Inl e
                   | Inr None \<Rightarrow> Inl AttributeError
                   | Inr (Some b) \<Rightarrow>
                       (let b_mol = b\<lparr>species_name := species_name self @ ''_backwards''\<rparr>
                        in Inr (links_with_methods env f_mol b_mol reactant product
                                  [Hmethod, Lmethod]))))
      | _ \<Rightarrow> Inl ValueError)"

section \<open>Concrete inputs\<close>

text \<open>Small inputs on which the theorems below are run.\<close>

definition example_scan_env :: scan_env where
  "example_scan_env = \<lparr>get_distance = (\<lambda>c i j. 1), get_avg_bond_length = (\<lambda>a b. 1)\<rparr>"

definition example_reaction :: "reaction_type \<Rightarrow> unit reaction" where
  "example_reaction t =
     \<lparr>reaction_name = ''r'', reacs = [], prods = [], reaction_ts = None, reaction_tss = None,
      rtype = t, reaction_solvent = None, reaction_charge = 0, switched_reacs_prods = False\<rparr>"

definition example_complex :: "string \<Rightarrow> nat \<Rightarrow> complex" where
  "example_complex nm n =
     \<lparr>complex_name = nm, complex_atoms = replicate n \<lparr>label = ''C'', coord = (0, 0, 0)\<rparr>,
      molecules = []\<rparr>"

text \<open>
  A three-atom candidate on the x axis: atom 0 approaches atom 1 along the mode (the
  forming bond), atom 2 moves away from atom 1. The graph has the bond 1-2 while the two
  atoms are closer than 1.2; distances are those along the axis.
\<close>

definition example_ts_env :: ts_env where
  "example_ts_env =
     \<lparr>min_imag_freq = - 40,
      metals = [''Fe''],
      make_graph = (\<lambda>tol sp. case atoms sp of
                      Some [a0, a1, a2] \<Rightarrow>
                        (if fst (coord a2) - fst (coord a1) < 6 / 5 then [(1, 2)] else [])
                    | _ \<Rightarrow> []),
      distance = (\<lambda>sp i j. case atoms sp of
                    Some ats \<Rightarrow> \<bar>fst (coord (ats ! i)) - fst (coord (ats ! j))\<bar>
                  | None \<Rightarrow> 0),
      run_hess_calculation = (\<lambda>m t. t),
      optimise = (\<lambda>m k sp. Some sp),
      species_are_isomorphic = (\<lambda>sp c. False)\<rparr>"

definition example_ts :: tsbase where
  "example_ts =
     \<lparr>species_name = ''ts'',
      atoms = Some [\<lparr>label = ''H'', coord = (0, 0, 0)\<rparr>, \<lparr>label = ''H'', coord = (3, 0, 0)\<rparr>,
                    \<lparr>label = ''H'', coord = (4, 0, 0)\<rparr>],
      species_charge = 0, mult = 1, graph = None, hessian = Some [],
      imaginary_frequencies = Some [- 500],
      normal_mode = (\<lambda>n. if n = 6 then Some [(3 / 10, 0, 0), (0, 0, 0), (4 / 10, 0, 0)] else None),
      ts_reactant = None, ts_product = None,
      bond_rearrangement = Some \<lparr>fbonds = [(0, 1)], bbonds = []\<rparr>\<rparr>"



definition example_tss_reaction :: "nat list option \<Rightarrow> nat reaction" where
  "example_tss_reaction found =
     \<lparr>reaction_name = ''r'', reacs = [], prods = [], reaction_ts = None, reaction_tss = found,
      rtype = Dissociation, reaction_solvent = None, reaction_charge = 0,
      switched_reacs_prods = False\<rparr>"

text \<open>Molecules and the parameters of \<open>Reaction.__init__\<close>.\<close>

definition example_init_env :: init_env where
  "example_init_env = \<lparr>classify = (\<lambda>rs ps. Dissociation), get_solvent = (\<lambda>s. Some s)\<rparr>"

definition example_molecule :: "mol_class \<Rightarrow> nat \<Rightarrow> int \<Rightarrow> string option \<Rightarrow> molecule" where
  "example_molecule c n q s =
     \<lparr>mol_name = ''m'', mol_class = c, mol_n_atoms = n, mol_charge = q, mol_solvent = s,
      mol_n_edges = 0\<rparr>"

text \<open>
  A search in which everything works: one rearrangement, every strategy gives a guess
  that passes both checks, and truncation is judged worthwhile.
\<close>

definition example_sn2 :: bond_rearrangement where
  "example_sn2 = \<lparr>fbonds = [(0, 1)], bbonds = [(1, 2)]\<rparr>"

definition example_search_env :: "(nat, nat) search_env" where
  "example_search_env =
     \<lparr>get_distance = (\<lambda>c i j. 1),
      get_avg_bond_length = (\<lambda>a b. 1),
      reactant_complex = (\<lambda>ms nm. example_complex nm 3),
      product_complex = (\<lambda>ms nm. example_complex nm 3),
      get_bond_rearrangs = (\<lambda>r p nm. Some [example_sn2]),
      is_worth_truncating = (\<lambda>c br. True),
      get_truncated_complex = (\<lambda>c br. c),
      rotate_translate = (\<lambda>c br shift. c),
      run_strategy = (\<lambda>s. Some 0),
      guess_could_have_correct_imag_mode = (\<lambda>g br. True),
      transition_state = (\<lambda>g br. g),
      opt_ts = (\<lambda>t. t),
      is_true_ts = (\<lambda>t. True)\<rparr>"

section \<open>The strategies that the generator yields\<close>

lemma yielded_gen_thenD:
  "s \<in> set (yielded (gen_then a b)) \<Longrightarrow> s \<in> set (yielded a) \<or> s \<in> set (yielded b)"
  by (induction a) auto

lemma scans_1f1b_not_special:
  "s \<in> set (yielded (scans_1f1b env reaction reactant product br)) \<Longrightarrow>
   \<not> is_two_fbond_scan s \<and> \<not> is_two_bbond_scan s"
  by (auto simp: scans_1f1b_def Let_def is_two_fbond_scan_def is_two_bbond_scan_def
        suffix_to_prefix split: if_splits sum.splits)

lemma scans_1f_not_special:
  "s \<in> set (yielded (scans_1f env reaction reactant product br)) \<Longrightarrow>
   \<not> is_two_fbond_scan s \<and> \<not> is_two_bbond_scan s"
  by (auto simp: scans_1f_def Let_def is_two_fbond_scan_def is_two_bbond_scan_def
        suffix_to_prefix split: if_splits sum.splits)

lemma scans_1b_not_special:
  "s \<in> set (yielded (scans_1b env reaction reactant product br)) \<Longrightarrow>
   \<not> is_two_fbond_scan s \<and> \<not> is_two_bbond_scan s"
  by (auto simp: scans_1b_def Let_def is_two_fbond_scan_def is_two_bbond_scan_def
        suffix_to_prefix split: if_splits sum.splits)

lemma scans_pairs_inner_not_special:
  "s \<in> set (yielded (scans_pairs_inner env reaction reactant product fbond bs)) \<Longrightarrow>
   \<not> is_two_fbond_scan s \<and> \<not> is_two_bbond_scan s"
  by (induction bs)
     (auto simp: Let_def is_two_fbond_scan_def is_two_bbond_scan_def
        suffix_to_prefix split: if_splits sum.splits)

lemma scans_pairs_outer_not_special:
  "s \<in> set (yielded (scans_pairs_outer env reaction reactant product fs bs)) \<Longrightarrow>
   \<not> is_two_fbond_scan s \<and> \<not> is_two_bbond_scan s"
proof (induction fs)
  case Nil
  then show ?case by simp
next
  case (Cons f fs)
  then have "s \<in> set (yielded (scans_pairs_inner env reaction reactant product f bs))
     \<or> s \<in> set (yielded (scans_pairs_outer env reaction reactant product fs bs))"
    by (simp add: yielded_gen_thenD)
  then show ?case
    using Cons.IH scans_pairs_inner_not_special by blast
qed

lemma scans_pairs_not_special:
  "s \<in> set (yielded (scans_pairs env reaction reactant product br)) \<Longrightarrow>
   \<not> is_two_fbond_scan s \<and> \<not> is_two_bbond_scan s"
  using scans_pairs_outer_not_special
  by (fastforce simp: scans_pairs_def split: if_splits)

lemma scans_2f_special:
  "s \<in> set (yielded (scans_2f env reaction reactant product br)) \<Longrightarrow>
   n_fbonds br = 2 \<and> \<not> is_two_bbond_scan s"
  by (auto simp: scans_2f_def Let_def is_two_fbond_scan_def is_two_bbond_scan_def
        suffix_to_prefix split: if_splits sum.splits)

lemma scans_2b_special:
  "s \<in> set (yielded (scans_2b env reaction reactant product br)) \<Longrightarrow>
   n_bbonds br = 2 \<and> \<not> is_two_fbond_scan s"
  by (auto simp: scans_2b_def Let_def is_two_fbond_scan_def is_two_bbond_scan_def
        suffix_to_prefix split: if_splits sum.splits)

lemma yielded_generator_cases:
  assumes "s \<in> set (yielded (get_ts_guess_function_and_params env reaction reactant product br))"
  shows "s = Get_template_ts_guess reactant product br Hmethod Low_opt
       \<or> s \<in> set (yielded (scans_1f1b env reaction reactant product br))
       \<or> s \<in> set (yielded (scans_1f env reaction reactant product br))
       \<or> s \<in> set (yielded (scans_pairs env reaction reactant product br))
       \<or> s \<in> set (yielded (scans_1b env reaction reactant product br))
       \<or> s \<in> set (yielded (scans_2f env reaction reactant product br))
       \<or> s \<in> set (yielded (scans_2b env reaction reactant product br))"
  using assms unfolding get_ts_guess_function_and_params_def
  by (auto dest!: yielded_gen_thenD)

text \<open>
  C1, as the spec states it, fails: a rearrangement with two forming bonds and one
  breaking bond gets the two-forming-bond 2-D scan all the same. The generator is run for
  the forming bonds (0, 1) and (2, 3) and the breaking bond (4, 5) of a six-atom
  reactant; its sixth item (index 5, after the template and the four pair scans) is that
  scan.
\<close>

theorem two_fbond_scan_with_breaking_bond:
  "is_two_fbond_scan
     (yielded (get_ts_guess_function_and_params
        \<lparr>get_distance = (\<lambda>c i j. 1), get_avg_bond_length = (\<lambda>a b. 1)\<rparr>
        \<lparr>reaction_name = ''r'', reacs = [], prods = [], reaction_ts = (None :: unit option),
          reaction_tss = None, rtype = Dissociation, reaction_solvent = None,
          reaction_charge = 0, switched_reacs_prods = False\<rparr>
        \<lparr>complex_name = ''r'',
          complex_atoms = replicate 6 \<lparr>label = ''C'', coord = (0, 0, 0)\<rparr>, molecules = []\<rparr>
        \<lparr>complex_name = ''p'',
          complex_atoms = replicate 6 \<lparr>label = ''C'', coord = (0, 0, 0)\<rparr>, molecules = []\<rparr>
        \<lparr>fbonds = [(0, 1), (2, 3)], bbonds = [(4, 5)]\<rparr>) ! 5)
   \<and> \<not> (n_fbonds \<lparr>fbonds = [(0, 1), (2, 3)], bbonds = [(4, 5)]\<rparr> = 2
          \<and> n_bbonds \<lparr>fbonds = [(0, 1), (2, 3)], bbonds = [(4, 5)]\<rparr> = 0)"
  by (simp add: get_ts_guess_function_and_params_def scans_1f1b_def scans_1f_def scans_pairs_def
      scans_1b_def scans_2f_def scans_2b_def n_fbonds_def n_bbonds_def avg_bond_length_of_def
      atom_label_def Let_def is_two_fbond_scan_def suffix_to_prefix numeral_eq_Suc)

text \<open>
  C1, amended: whatever the generator yields, a two-forming-bond 2-D scan is among it
  only when the rearrangement has exactly two forming bonds, and a two-breaking-bond 2-D
  scan only when it has exactly two breaking bonds. The number of bonds of the other kind
  is not looked at.
\<close>

theorem two_bond_scans_only_when_two_bonds:
  assumes "s \<in> set (yielded (get_ts_guess_function_and_params env reaction reactant product br))"
  shows "(is_two_fbond_scan s \<longrightarrow> n_fbonds br = 2)
       \<and> (is_two_bbond_scan s \<longrightarrow> n_bbonds br = 2)"
proof -
  have "\<not> is_two_fbond_scan (Get_template_ts_guess reactant product br Hmethod Low_opt)"
       "\<not> is_two_bbond_scan (Get_template_ts_guess reactant product br Hmethod Low_opt)"
    by (simp_all add: is_two_fbond_scan_def is_two_bbond_scan_def)
  then show ?thesis
    using yielded_generator_cases [OF assms] scans_1f1b_not_special scans_1f_not_special
      scans_pairs_not_special scans_1b_not_special scans_2f_special scans_2b_special
    by metis
qed

theorem two_bond_scans_only_when_two_bonds_witness:
  "yielded (get_ts_guess_function_and_params example_scan_env (example_reaction Dissociation)
      (example_complex ''r'' 4) (example_complex ''p'' 4)
      \<lparr>fbonds = [(0, 1), (2, 3)], bbonds = []\<rparr>) ! 1
     \<in> set (yielded (get_ts_guess_function_and_params example_scan_env
          (example_reaction Dissociation) (example_complex ''r'' 4) (example_complex ''p'' 4)
          \<lparr>fbonds = [(0, 1), (2, 3)], bbonds = []\<rparr>))
   \<and> is_two_fbond_scan
       (yielded (get_ts_guess_function_and_params example_scan_env (example_reaction Dissociation)
          (example_complex ''r'' 4) (example_complex ''p'' 4)
          \<lparr>fbonds = [(0, 1), (2, 3)], bbonds = []\<rparr>) ! 1)
   \<and> n_fbonds \<lparr>fbonds = [(0, 1), (2, 3)], bbonds = []\<rparr> = 2
   \<and> yielded (get_ts_guess_function_and_params example_scan_env (example_reaction Dissociation)
      (example_complex ''r'' 4) (example_complex ''p'' 4)
      \<lparr>fbonds = [], bbonds = [(0, 1), (2, 3)]\<rparr>) ! 2
     \<in> set (yielded (get_ts_guess_function_and_params example_scan_env
          (example_reaction Dissociation) (example_complex ''r'' 4) (example_complex ''p'' 4)
          \<lparr>fbonds = [], bbonds = [(0, 1), (2, 3)]\<rparr>))
   \<and> is_two_bbond_scan
       (yielded (get_ts_guess_function_and_params example_scan_env (example_reaction Dissociation)
          (example_complex ''r'' 4) (example_complex ''p'' 4)
          \<lparr>fbonds = [], bbonds = [(0, 1), (2, 3)]\<rparr>) ! 2)
   \<and> n_bbonds \<lparr>fbonds = [], bbonds = [(0, 1), (2, 3)]\<rparr> = 2"
proof -
  let ?F = "get_ts_guess_function_and_params example_scan_env (example_reaction Dissociation)
      (example_complex ''r'' 4) (example_complex ''p'' 4)
      \<lparr>fbonds = [(0, 1), (2, 3)], bbonds = []\<rparr>"
  let ?B = "get_ts_guess_function_and_params example_scan_env (example_reaction Dissociation)
      (example_complex ''r'' 4) (example_complex ''p'' 4)
      \<lparr>fbonds = [], bbonds = [(0, 1), (2, 3)]\<rparr>"
  have lenF: "length (yielded ?F) = 3"
    by (simp add: get_ts_guess_function_and_params_def scans_1f1b_def scans_1f_def
        scans_pairs_def scans_1b_def scans_2f_def scans_2b_def n_fbonds_def n_bbonds_def
        avg_bond_length_of_def atom_label_def Let_def example_scan_env_def example_complex_def)
  have lenB: "length (yielded ?B) = 3"
    by (simp add: get_ts_guess_function_and_params_def scans_1f1b_def scans_1f_def
        scans_pairs_def scans_1b_def scans_2f_def scans_2b_def n_fbonds_def n_bbonds_def
        avg_bond_length_of_def atom_label_def Let_def example_scan_env_def example_complex_def)
  have memF: "yielded ?F ! 1 \<in> set (yielded ?F)" using lenF by (intro nth_mem) linarith
  have memB: "yielded ?B ! 2 \<in> set (yielded ?B)" using lenB by (intro nth_mem) linarith
  have isF: "is_two_fbond_scan (yielded ?F ! 1)"
    by (simp add: get_ts_guess_function_and_params_def scans_1f1b_def scans_1f_def
        scans_pairs_def scans_1b_def scans_2f_def scans_2b_def n_fbonds_def n_bbonds_def
        avg_bond_length_of_def atom_label_def Let_def example_scan_env_def example_complex_def
        is_two_fbond_scan_def suffix_to_prefix)
  have isB: "is_two_bbond_scan (yielded ?B ! 2)"
    by (simp add: get_ts_guess_function_and_params_def scans_1f1b_def scans_1f_def
        scans_pairs_def scans_1b_def scans_2f_def scans_2b_def n_fbonds_def n_bbonds_def
        avg_bond_length_of_def atom_label_def Let_def example_scan_env_def example_complex_def
        is_two_bbond_scan_def suffix_to_prefix)
  show ?thesis
    using two_bond_scans_only_when_two_bonds [OF memF] two_bond_scans_only_when_two_bonds [OF memB]
      memF memB isF isB
    by blast
qed

text \<open>
  C6: with exactly one forming and one breaking bond in a Substitution or Elimination
  (and the forming bond's atoms among the reactant's, as every rearrangement of the
  enumerator has them), the generator starts with the template strategy and continues
  with the low-level 2-D scan over the forming and the breaking bond, 12 points each way,
  to the average bond length and to the stretched breaking bond. Every 1-D scan comes
  after these two.
\<close>

theorem substitution_gets_2d_scan_first:
  assumes "n_fbonds br = 1" and "n_bbonds br = 1"
    and "rtype reaction \<in> {Substitution, Elimination}"
    and "fst (fbonds br ! 0) < length (complex_atoms reactant)"
    and "snd (fbonds br ! 0) < length (complex_atoms reactant)"
  shows "\<exists>rest. get_ts_guess_function_and_params env reaction reactant product br =
           Yield (Get_template_ts_guess reactant product br Hmethod Low_opt)
          (Yield (Get_ts_guess_2d reactant product (fbonds br ! 0) (bbonds br ! 0) 12
                    (base_name reaction @ bond_str (fbonds br ! 0) @ bond_str (bbonds br ! 0)
                       @ ''_ll2d'')
                    Lmethod Low_opt
                    (get_avg_bond_length env
                       (label (complex_atoms reactant ! fst (fbonds br ! 0)))
                       (label (complex_atoms reactant ! snd (fbonds br ! 0))))
                    (get_distance env reactant (fst (bbonds br ! 0)) (snd (bbonds br ! 0))
                       + get_added_bbond_dist reaction)
                    None)
           rest)"
  using assms
  by (simp add: get_ts_guess_function_and_params_def scans_1f1b_def avg_bond_length_of_def
      atom_label_def Let_def)

theorem substitution_gets_2d_scan_first_witness:
  "n_fbonds \<lparr>fbonds = [(0, 1)], bbonds = [(1, 2)]\<rparr> = 1
   \<and> n_bbonds \<lparr>fbonds = [(0, 1)], bbonds = [(1, 2)]\<rparr> = 1
   \<and> rtype (example_reaction Substitution) \<in> {Substitution, Elimination}
   \<and> fst (fbonds \<lparr>fbonds = [(0, 1)], bbonds = [(1, 2)]\<rparr> ! 0)
       < length (complex_atoms (example_complex ''r'' 3))
   \<and> snd (fbonds \<lparr>fbonds = [(0, 1)], bbonds = [(1, 2)]\<rparr> ! 0)
       < length (complex_atoms (example_complex ''r'' 3))
   \<and> (\<exists>rest. get_ts_guess_function_and_params example_scan_env (example_reaction Substitution)
          (example_complex ''r'' 3) (example_complex ''p'' 3)
          \<lparr>fbonds = [(0, 1)], bbonds = [(1, 2)]\<rparr> =
        Yield (Get_template_ts_guess (example_complex ''r'' 3) (example_complex ''p'' 3)
                 \<lparr>fbonds = [(0, 1)], bbonds = [(1, 2)]\<rparr> Hmethod Low_opt)
       (Yield (Get_ts_guess_2d (example_complex ''r'' 3) (example_complex ''p'' 3) (0, 1) (1, 2)
                 12 ''r_--_0-1_1-2_ll2d'' Lmethod Low_opt 1 (5 / 2) None)
        rest))"
proof -
  have h: "n_fbonds \<lparr>fbonds = [(0, 1)], bbonds = [(1, 2)]\<rparr> = 1"
          "n_bbonds \<lparr>fbonds = [(0, 1)], bbonds = [(1, 2)]\<rparr> = 1"
          "rtype (example_reaction Substitution) \<in> {Substitution, Elimination}"
          "fst (fbonds \<lparr>fbonds = [(0, 1)], bbonds = [(1, 2)]\<rparr> ! 0)
             < length (complex_atoms (example_complex ''r'' 3))"
          "snd (fbonds \<lparr>fbonds = [(0, 1)], bbonds = [(1, 2)]\<rparr> ! 0)
             < length (complex_atoms (example_complex ''r'' 3))"
    by (simp_all add: n_fbonds_def n_bbonds_def example_reaction_def example_complex_def)
  show ?thesis
    using substitution_gets_2d_scan_first [OF h, of example_scan_env "example_complex ''p'' 3"] h
    by (simp add: example_scan_env_def get_added_bbond_dist_def base_name_def bond_str_def
        example_reaction_def str_nat.simps)
qed

section \<open>Displacement along a normal mode\<close>

lemma np_max_Max:
  assumes "xs \<noteq> []"
  shows "np_max xs = Inr (Max (set xs))"
proof (cases xs)
  case Nil
  with assms show ?thesis by simp
next
  case (Cons a list)
  then show ?thesis
    using Max.set_eq_fold [of a list] by simp
qed

lemma vadd_smul_zero: "vadd c (smul 0 m) = c"
  by (simp add: vadd_def smul_def split: prod.splits)

lemma vsub_step:
  "vsub (vadd c (smul (real (Suc k) * r) m)) (smul r m) = vadd c (smul (real k * r) m)"
  by (simp add: vadd_def vsub_def smul_def algebra_simps split: prod.splits)

lemma norm3_self: "norm3 (vsub c c) = 0"
  by (simp add: norm3_def vsub_def split: prod.splits)

lemma map2_map2_same:
  "length xs = length ys \<Longrightarrow> map2 g (map2 h xs ys) ys = map2 (\<lambda>x y. g (h x y) y) xs ys"
  by (induction xs ys rule: list_induct2) auto

lemma map2_fst: "length xs = length ys \<Longrightarrow> map2 (\<lambda>x y. x) xs ys = xs"
  by (induction xs ys rule: list_induct2) auto

lemma max_atom_displacement_self:
  assumes "coords \<noteq> []"
  shows "max_atom_displacement coords coords = Inr 0"
proof -
  have eq: "map2 (\<lambda>c d. norm3 (vsub c d)) coords coords = map (\<lambda>c. 0) coords"
    by (induction coords) (auto simp: norm3_self)
  have "set (map (\<lambda>c. 0::real) coords) = {0}"
    using assms by (cases coords) auto
  then show ?thesis
    using assms by (simp add: max_atom_displacement_def eq np_max_Max)
qed

lemma max_atom_displacement_defined:
  assumes "coords \<noteq> []" "length d = length coords"
  shows "\<exists>m. max_atom_displacement coords d = Inr m"
proof -
  have "map2 (\<lambda>c d. norm3 (vsub c d)) coords d \<noteq> []"
    using assms by (cases coords; cases d) auto
  then show ?thesis
    by (simp add: max_atom_displacement_def np_max_Max)
qed

lemma shrink_displacement_bound:
  assumes "length mode = length coords" "coords \<noteq> []" "0 < cap"
  shows "\<exists>d j mx.
           shrink_displacement k coords
             (map2 (\<lambda>c m. vadd c (smul (real k * (f / 20)) m)) coords mode) f mode cap = Inr d
         \<and> j \<le> k
         \<and> d = map2 (\<lambda>c m. vadd c (smul (real j * (f / 20)) m)) coords mode
         \<and> max_atom_displacement coords d = Inr mx \<and> mx \<le> cap"
proof (induction k)
  case 0
  have "map2 (\<lambda>c m. vadd c (smul (real 0 * (f / 20)) m)) coords mode = coords"
    using assms(1) by (simp add: vadd_smul_zero map2_fst)
  then show ?case
    using max_atom_displacement_self [OF assms(2)] assms(3) by auto
next
  case (Suc k)
  let ?disp = "map2 (\<lambda>c m. vadd c (smul (real (Suc k) * (f / 20)) m)) coords mode"
  have "length ?disp = length coords" using assms(1) by simp
  then obtain m where m: "max_atom_displacement coords ?disp = Inr m"
    using max_atom_displacement_defined [OF assms(2)] by blast
  show ?case
  proof (cases "m < cap")
    case True
    then have "shrink_displacement (Suc k) coords ?disp f mode cap = Inr ?disp"
      using m by simp
    then show ?thesis
      using m True by (intro exI [of _ ?disp] exI [of _ "Suc k"] exI [of _ m]) simp
  next
    case False
    have step: "map2 (\<lambda>d m. vsub d (smul (f / 20) m)) ?disp mode
          = map2 (\<lambda>c m. vadd c (smul (real k * (f / 20)) m)) coords mode"
      using assms(1) by (simp only: map2_map2_same vsub_step)
    have "shrink_displacement (Suc k) coords ?disp f mode cap
          = shrink_displacement k coords
              (map2 (\<lambda>c m. vadd c (smul (real k * (f / 20)) m)) coords mode) f mode cap"
      using m False step by simp
    then show ?thesis
      using Suc.IH by (metis le_Suc_eq)
  qed
qed

lemma map_coord_update:
  "length ats = length d \<Longrightarrow> map coord (map2 (\<lambda>a c. a\<lparr>coord := c\<rparr>) ats d) = d"
  by (induction ats d rule: list_induct2) auto

text \<open>
  C3: for a species with atoms and with a normal mode of the shape of its coordinates,
  and for every displacement factor and every positive \<open>max_atom_disp\<close>, over the reals,
  \<open>displaced_species_along_mode\<close> returns a species whose coordinates are the start
  \<open>coords + disp_factor * mode\<close> less \<open>s\<close> times \<open>(disp_factor / 20) * mode\<close> for some
  \<open>s \<le> 20\<close>, and the largest norm of the coordinate change of one atom is at most
  \<open>max_atom_disp\<close>: either the loop stopped below the cap, or all 20 subtractions were
  made and the geometry is the undisplaced one.
\<close>

theorem displaced_species_within_max_atom_disp:
  assumes "atoms sp = Some ats" and "ats \<noteq> []"
    and "normal_mode sp n = Some mode" and "length mode = length ats"
    and "0 < cap"
  shows "\<exists>d ats' s mx.
           displaced_species_along_mode sp n f cap = Inr (Some d)
         \<and> atoms d = Some ats'
         \<and> s \<le> 20
         \<and> map coord ats' =
             map2 (\<lambda>c m. vsub (vadd c (smul f m)) (smul (real s * (f / 20)) m)) (map coord ats) mode
         \<and> max_atom_displacement (map coord ats) (map coord ats') = Inr mx
         \<and> mx \<le> cap"
proof -
  let ?coords = "map coord ats"
  have len: "length mode = length ?coords" and ne: "?coords \<noteq> []"
    using assms by simp_all
  have start: "map2 (\<lambda>c m. vadd c (smul f m)) ?coords mode
             = map2 (\<lambda>c m. vadd c (smul (real 20 * (f / 20)) m)) ?coords mode"
    by simp
  obtain d j mx where
    sh: "shrink_displacement 20 ?coords (map2 (\<lambda>c m. vadd c (smul f m)) ?coords mode) f mode cap
           = Inr d"
    and j: "j \<le> 20"
    and d: "d = map2 (\<lambda>c m. vadd c (smul (real j * (f / 20)) m)) ?coords mode"
    and mx: "max_atom_displacement ?coords d = Inr mx" "mx \<le> cap"
    using shrink_displacement_bound [OF len ne assms(5), of 20 f] unfolding start by blast
  have lend: "length ats = length d" using d assms(4) by simp
  have form: "vadd c (smul (real j * (f / 20)) m)
            = vsub (vadd c (smul f m)) (smul (real (20 - j) * (f / 20)) m)" for c m
    using j by (simp add: vadd_def vsub_def smul_def algebra_simps of_nat_diff split: prod.splits)
  have res: "displaced_species_along_mode sp n f cap
        = Inr (Some \<lparr>species_name = species_name sp @ ''_disp'',
                     atoms = Some (map2 (\<lambda>a c. a\<lparr>coord := c\<rparr>) ats d),
                     species_charge = species_charge sp, mult = mult sp, graph = None,
                     hessian = None, imaginary_frequencies = None,
                     normal_mode = (\<lambda>n. None)\<rparr>)"
    using assms(1,3,4) sh by (simp add: displaced_species_along_mode_def Let_def)
  let ?A = "map2 (\<lambda>a c. a\<lparr>coord := c\<rparr>) ats d"
  let ?D = "\<lparr>species_name = species_name sp @ ''_disp'', atoms = Some ?A,
             species_charge = species_charge sp, mult = mult sp, graph = None,
             hessian = None, imaginary_frequencies = None,
             normal_mode = (\<lambda>n. None)\<rparr> :: species"
  have coords': "map coord ?A = d"
    using lend by (rule map_coord_update)
  have dform: "d = map2 (\<lambda>c m. vsub (vadd c (smul f m)) (smul (real (20 - j) * (f / 20)) m))
                     ?coords mode"
    unfolding d by (simp only: form)
  show ?thesis
  proof (intro exI conjI)
    show "displaced_species_along_mode sp n f cap = Inr (Some ?D)" by (rule res)
    show "atoms ?D = Some ?A" by simp
    show "20 - j \<le> 20" by simp
    show "map coord ?A = map2 (\<lambda>c m. vsub (vadd c (smul f m)) (smul (real (20 - j) * (f / 20)) m))
                     ?coords mode"
      unfolding coords' by (rule dform)
    show "max_atom_displacement ?coords (map coord ?A) = Inr mx"
      unfolding coords' by (rule mx(1))
    show "mx \<le> cap" by (rule mx(2))
  qed
qed


theorem displaced_species_within_max_atom_disp_witness:
  "atoms example_ts = Some [\<lparr>label = ''H'', coord = (0, 0, 0)\<rparr>, \<lparr>label = ''H'', coord = (3, 0, 0)\<rparr>,
                    \<lparr>label = ''H'', coord = (4, 0, 0)\<rparr>]
   \<and> normal_mode example_ts 6 = Some [(3 / 10, 0, 0), (0, 0, 0), (4 / 10, 0, 0)]
   \<and> (0::real) < 1 / 4
   \<and> (\<exists>d ats' s mx.
         displaced_species_along_mode example_ts 6 1 (1 / 4) = Inr (Some d)
       \<and> atoms d = Some ats'
       \<and> s \<le> 20
       \<and> map coord ats' =
             map2 (\<lambda>c m. vsub (vadd c (smul 1 m)) (smul (real s * (1 / 20)) m))
               [(0, 0, 0), (3, 0, 0), (4, 0, 0)] [(3 / 10, 0, 0), (0, 0, 0), (4 / 10, 0, 0)]
       \<and> max_atom_displacement [(0, 0, 0), (3, 0, 0), (4, 0, 0)] (map coord ats') = Inr mx
       \<and> mx \<le> 1 / 4)"
proof -
  have a: "atoms example_ts = Some [\<lparr>label = ''H'', coord = (0, 0, 0)\<rparr>,
             \<lparr>label = ''H'', coord = (3, 0, 0)\<rparr>, \<lparr>label = ''H'', coord = (4, 0, 0)\<rparr>]"
    by (simp add: example_ts_def)
  have n: "normal_mode example_ts 6 = Some [(3 / 10, 0, 0), (0, 0, 0), (4 / 10, 0, 0)]"
    by (simp add: example_ts_def)
  show ?thesis
    using displaced_species_within_max_atom_disp [OF a _ n, of "1 / 4" 1] a n
    by simp
qed

section \<open>The checks of the imaginary mode\<close>



text \<open>
  C7: \<open>could_have_correct_imag_mode\<close> raises a ValueError when the bond rearrangement is
  not set, and \<open>imag_mode_links_reactant_products\<close> raises a ValueError when the reactant
  or the product is not set.
\<close>

theorem missing_preconditions_raise_ValueError:
  "(bond_rearrangement self = None \<longrightarrow> could_have_correct_imag_mode env self = Inl ValueError)
   \<and> (ts_reactant self = None \<or> ts_product self = None
        \<longrightarrow> imag_mode_links_reactant_products env self disp_mag = Inl ValueError)"
  by (auto simp: could_have_correct_imag_mode_def imag_mode_links_reactant_products_def
        split: option.splits)

theorem missing_preconditions_raise_ValueError_witness:
  "bond_rearrangement (example_ts\<lparr>bond_rearrangement := None\<rparr>) = None
   \<and> could_have_correct_imag_mode example_ts_env (example_ts\<lparr>bond_rearrangement := None\<rparr>)
       = Inl ValueError
   \<and> (ts_reactant example_ts = None \<or> ts_product example_ts = None)
   \<and> imag_mode_links_reactant_products example_ts_env example_ts 1 = Inl ValueError"
proof -
  have h: "bond_rearrangement (example_ts\<lparr>bond_rearrangement := None\<rparr>) = None"
          "ts_reactant example_ts = None \<or> ts_product example_ts = None"
    by (simp_all add: example_ts_def)
  show ?thesis
    using missing_preconditions_raise_ValueError
            [of "example_ts\<lparr>bond_rearrangement := None\<rparr>" example_ts_env]
          missing_preconditions_raise_ValueError [of example_ts example_ts_env 1] h
    by blast
qed

section \<open>The lowest-energy transition state\<close>







section \<open>Constructing a Reaction\<close>

lemma set_all_solvents_keeps:
  "map mol_n_atoms (reacs (set_all_solvents r)) = map mol_n_atoms (reacs r)"
  "map mol_n_atoms (prods (set_all_solvents r)) = map mol_n_atoms (prods r)"
  "map mol_charge (reacs (set_all_solvents r)) = map mol_charge (reacs r)"
  "map mol_charge (prods (set_all_solvents r)) = map mol_charge (prods r)"
  "rtype (set_all_solvents r) = rtype r"
  by (simp_all add: set_all_solvents_def comp_def)

lemma check_solvent_keeps:
  assumes "check_solvent r = Inr r'"
  shows "map mol_n_atoms (reacs r') = map mol_n_atoms (reacs r)"
    and "map mol_n_atoms (prods r') = map mol_n_atoms (prods r)"
    and "map mol_charge (reacs r') = map mol_charge (reacs r)"
    and "map mol_charge (prods r') = map mol_charge (prods r)"
  using assms
  by (auto simp: check_solvent_def set_all_solvents_keeps split: if_splits sum.splits)

lemma check_balance_Inr:
  assumes "check_balance r = Inr r'"
  shows "reaction_charge r' = sum_list (map mol_charge (reacs r))"
    and "sum_list (map mol_charge (reacs r)) = sum_list (map mol_charge (prods r))"
    and "reacs r' = reacs r" and "prods r' = prods r"
  using assms by (auto simp: check_balance_def Let_def split: if_splits)

lemma reaction_start_lists:
  "reacs (reaction_start env mols nm sn) = reactants_of mols"
  "prods (reaction_start env mols nm sn) = products_of mols"
  by (simp_all add: reaction_start_def)

text \<open>
  C10, as the spec states it, fails: the solvents are checked before the balance. A
  reactant of one atom in water and a product of two atoms in dichloromethane do not
  balance, and the construction raises SolventsDontMatch, not UnbalancedReaction.
\<close>

theorem unbalanced_with_different_solvents:
  "sum_list (map mol_n_atoms
      (reactants_of [Some (example_molecule Reactant 1 0 (Some ''water'')),
                     Some (example_molecule Product 2 0 (Some ''dcm''))]))
     \<noteq> sum_list (map mol_n_atoms
      (products_of [Some (example_molecule Reactant 1 0 (Some ''water'')),
                    Some (example_molecule Product 2 0 (Some ''dcm''))]))
   \<and> (reaction_init example_init_env
        [Some (example_molecule Reactant 1 0 (Some ''water'')),
         Some (example_molecule Product 2 0 (Some ''dcm''))] ''reaction'' None
        :: error + unit reaction) = Inl SolventsDontMatch"
  by (simp add: reaction_init_def reaction_start_def check_solvent_def reactants_of_def
      products_of_def example_molecule_def example_init_env_def)

text \<open>
  C10, amended: when the solvent check passes, constructing a Reaction raises
  UnbalancedReaction whenever the atoms of the reactants and of the products differ in
  total number, or their charges in sum. When the construction succeeds, the charge of
  the reaction is the sum of the charges of the reactants given, and of the reactants
  the reaction then holds (which are the products given, when the two were swapped).
\<close>

theorem reaction_init_balance:
  shows "(\<forall>self1. check_solvent (reaction_start env mols nm solvent_name
                                   :: 'ts reaction) = Inr self1
            \<and> (sum_list (map mol_n_atoms (reactants_of mols))
                  \<noteq> sum_list (map mol_n_atoms (products_of mols))
               \<or> sum_list (map mol_charge (reactants_of mols))
                  \<noteq> sum_list (map mol_charge (products_of mols)))
          \<longrightarrow> (reaction_init env mols nm solvent_name :: error + 'ts reaction)
                = Inl UnbalancedReaction)
       \<and> (\<forall>r. (reaction_init env mols nm solvent_name :: error + 'ts reaction) = Inr r
          \<longrightarrow> reaction_charge r = sum_list (map mol_charge (reactants_of mols))
              \<and> reaction_charge r = sum_list (map mol_charge (reacs r)))"
proof (intro conjI allI impI)
  fix self1 :: "'ts reaction"
  assume h: "check_solvent (reaction_start env mols nm solvent_name) = Inr self1
            \<and> (sum_list (map mol_n_atoms (reactants_of mols))
                  \<noteq> sum_list (map mol_n_atoms (products_of mols))
               \<or> sum_list (map mol_charge (reactants_of mols))
                  \<noteq> sum_list (map mol_charge (products_of mols)))"
  then have cs: "check_solvent (reaction_start env mols nm solvent_name) = Inr self1" by blast
  have "check_balance self1 = Inl UnbalancedReaction"
    using h check_solvent_keeps [OF cs]
    by (auto simp: check_balance_def Let_def reaction_start_lists)
  then show "(reaction_init env mols nm solvent_name :: error + 'ts reaction)
               = Inl UnbalancedReaction"
    using cs by (simp add: reaction_init_def)
next
  fix r :: "'ts reaction"
  assume ok: "reaction_init env mols nm solvent_name = Inr r"
  then obtain self1 self2 :: "'ts reaction" where
    cs: "check_solvent (reaction_start env mols nm solvent_name) = Inr self1"
    and cb: "check_balance self1 = Inr self2"
    by (auto simp: reaction_init_def split: sum.splits)
  let ?self3 = "self2\<lparr>switched_reacs_prods := False\<rparr>"
  let ?self4 = "if rtype ?self3 = Addition then switch_addition ?self3 else ?self3"
  have r: "r = (if rtype ?self4 = Rearrangement then check_rearrangement ?self4 else ?self4)"
    using ok cs cb by (simp add: reaction_init_def Let_def)
  note b = check_balance_Inr [OF cb]
  note k = check_solvent_keeps [OF cs]
  have q: "reaction_charge self2 = sum_list (map mol_charge (reactants_of mols))"
    using b(1) k(3) by (simp add: reaction_start_lists)
  have bal: "sum_list (map mol_charge (reacs self2)) = sum_list (map mol_charge (prods self2))"
    using b by simp
  have rq: "reaction_charge r = reaction_charge self2"
    unfolding r by (simp add: switch_addition_def check_rearrangement_def Let_def)
  have rr: "sum_list (map mol_charge (reacs r)) = sum_list (map mol_charge (reacs self2))"
    unfolding r using bal by (simp add: switch_addition_def check_rearrangement_def Let_def)
  show "reaction_charge r = sum_list (map mol_charge (reactants_of mols))"
    using rq q by simp
  show "reaction_charge r = sum_list (map mol_charge (reacs r))"
    using rq rr b(1,3) by simp
qed

theorem reaction_init_balance_witness:
  "(reaction_init example_init_env
        [Some (example_molecule Reactant 1 0 None), Some (example_molecule Product 2 0 None)]
        ''reaction'' None :: error + unit reaction) = Inl UnbalancedReaction
   \<and> (\<exists>r. (reaction_init example_init_env
        [Some (example_molecule Reactant 2 (- 1) None), Some (example_molecule Product 2 (- 1) None)]
        ''reaction'' None :: error + unit reaction) = Inr r \<and> reaction_charge r = - 1)"
proof -
  let ?U = "[Some (example_molecule Reactant 1 0 None), Some (example_molecule Product 2 0 None)]"
  let ?B = "[Some (example_molecule Reactant 2 (- 1) None),
             Some (example_molecule Product 2 (- 1) None)]"
  have cs: "check_solvent (reaction_start example_init_env ?U ''reaction'' None :: unit reaction)
          = Inr (reaction_start example_init_env ?U ''reaction'' None)"
    by (simp add: reaction_start_def check_solvent_def reactants_of_def products_of_def
        example_molecule_def)
  have ne: "sum_list (map mol_n_atoms (reactants_of ?U))
              \<noteq> sum_list (map mol_n_atoms (products_of ?U))"
    by (simp add: reactants_of_def products_of_def example_molecule_def)
  obtain r :: "unit reaction" where
    r: "reaction_init example_init_env ?B ''reaction'' None = Inr r"
    by (simp add: reaction_init_def reaction_start_def check_solvent_def check_balance_def
        reactants_of_def products_of_def example_molecule_def example_init_env_def Let_def)
  have q: "sum_list (map mol_charge (reactants_of ?B)) = - 1"
    by (simp add: reactants_of_def example_molecule_def)
  show ?thesis
    using reaction_init_balance [of example_init_env ?U "''reaction''" None, where 'ts = unit]
      reaction_init_balance [of example_init_env ?B "''reaction''" None, where 'ts = unit]
      cs ne r q
    by auto
qed

section \<open>The search for one rearrangement and for a reaction\<close>

text \<open>
  The loop of \<open>get_ts\<close> on its own does what the spec says of it: it returns the
  transition state of the first strategy that succeeds, whatever the generator would do
  after it, and it returns None exactly when the generator ends without an exception and
  no strategy has succeeded.
\<close>

lemma get_ts_loop_Yield:
  "get_ts_loop env br (Yield s rest) =
     (if strategy_succeeds env br s then Inr (Some (found_ts env br s))
      else get_ts_loop env br rest)"
  by (simp add: strategy_succeeds_def found_ts_def split: option.splits)

lemma get_ts_loop_first_success:
  assumes "\<forall>x \<in> set pre. \<not> strategy_succeeds env br x"
    and "strategy_succeeds env br s"
  shows "get_ts_loop env br (gen_prefix pre (Yield s rest)) = Inr (Some (found_ts env br s))"
  using assms by (induction pre) (simp_all add: get_ts_loop_Yield del: get_ts_loop.simps(3))

lemma get_ts_loop_None_iff:
  "get_ts_loop env br g = Inr None
     \<longleftrightarrow> raised g = None \<and> (\<forall>x \<in> set (yielded g). \<not> strategy_succeeds env br x)"
  by (induction g) (auto simp: get_ts_loop_Yield simp del: get_ts_loop.simps(3))

lemma get_ts_loop_Some:
  assumes "get_ts_loop env br g = Inr (Some t)"
  shows "\<exists>pre s rest. g = gen_prefix pre (Yield s rest)
           \<and> (\<forall>x \<in> set pre. \<not> strategy_succeeds env br x)
           \<and> strategy_succeeds env br s \<and> t = found_ts env br s"
  using assms
proof (induction g)
  case Stop
  then show ?case by simp
next
  case (Raise e)
  then show ?case by simp
next
  case (Yield s g)
  show ?case
  proof (cases "strategy_succeeds env br s")
    case True
    then have "t = found_ts env br s"
      using Yield.prems by (simp add: get_ts_loop_Yield del: get_ts_loop.simps(3))
    then show ?thesis
      using True by (intro exI [of _ "[]"] exI [of _ s] exI [of _ g]) simp
  next
    case False
    then have "get_ts_loop env br g = Inr (Some t)"
      using Yield.prems by (simp add: get_ts_loop_Yield del: get_ts_loop.simps(3))
    then obtain pre s' rest where
      "g = gen_prefix pre (Yield s' rest)" "\<forall>x \<in> set pre. \<not> strategy_succeeds env br x"
      "strategy_succeeds env br s'" "t = found_ts env br s'"
      using Yield.IH by blast
    then show ?thesis
      using False by (intro exI [of _ "s # pre"] exI [of _ s'] exI [of _ rest]) simp
  qed
qed

text \<open>
  \<open>get_truncated_ts\<close> never returns: when nothing before it raises, restoring the name
  of the reaction with \<open>reaction.name -= '_truncated'\<close> does.
\<close>

lemma get_truncated_ts_raises:
  "\<exists>e. get_truncated_ts env reaction reactant product br = Inl e"
  by (simp add: get_truncated_ts_def str_isub_def Let_def split: option.splits sum.splits)

lemma example_search_env_simps:
  "get_truncated_complex example_search_env c br = c"
  "get_bond_rearrangs example_search_env a b n = Some [example_sn2]"
  "is_worth_truncating example_search_env c br"
  "reactant_complex example_search_env ms nm = example_complex nm 3"
  "product_complex example_search_env ms nm = example_complex nm 3"
  by (simp_all add: example_search_env_def)

lemma example_get_ts_no_strip:
  "get_ts_no_strip example_search_env reaction (example_complex ''r'' 3)
     (example_complex ''p'' 3) example_sn2 = Inr (Some 0, example_complex ''r'' 3)"
  by (simp add: get_ts_no_strip_def translate_rotate_reactant_def example_complex_def
      get_ts_guess_function_and_params_def example_search_env_def)

lemma example_get_ts_no_strip':
  "get_ts_no_strip (example_search_env\<lparr>is_worth_truncating := (\<lambda>c br. False)\<rparr>) reaction
     (example_complex ''r'' 3) (example_complex ''p'' 3) example_sn2
     = Inr (Some 0, example_complex ''r'' 3)"
  by (simp add: get_ts_no_strip_def translate_rotate_reactant_def example_complex_def
      get_ts_guess_function_and_params_def example_search_env_def)

lemma example_get_truncated_ts:
  "get_truncated_ts example_search_env reaction (example_complex ''r'' 3)
     (example_complex ''p'' 3) example_sn2 = Inl TypeError"
  by (simp add: get_truncated_ts_def Let_def example_search_env_simps example_get_ts_no_strip
      str_isub_def)

text \<open>
  C5 fails on the code: when \<open>get_ts\<close> is called with its default
  \<open>strip_molecule=True\<close> and truncation is judged worthwhile for the rearrangement, it
  raises before it reaches the loop over the strategies; it neither returns a transition
  state nor None. (In the run below every strategy would succeed, and without the
  truncation the template strategy's transition state is returned.)
\<close>

theorem get_ts_raises_when_truncating:
  assumes "is_worth_truncating env reactant br"
  shows "\<exists>e. get_ts env reaction reactant product br True = Inl e"
  using assms get_truncated_ts_raises [of env reaction reactant product br]
  by (auto simp: get_ts_def)

theorem get_ts_raises_when_truncating_witness:
  "is_worth_truncating example_search_env (example_complex ''r'' 3) example_sn2
   \<and> (\<exists>e. get_ts example_search_env (example_tss_reaction None) (example_complex ''r'' 3)
          (example_complex ''p'' 3) example_sn2 True = Inl e)
   \<and> get_ts example_search_env (example_tss_reaction None) (example_complex ''r'' 3)
        (example_complex ''p'' 3) example_sn2 True = Inl TypeError
   \<and> get_ts example_search_env (example_tss_reaction None) (example_complex ''r'' 3)
        (example_complex ''p'' 3) example_sn2 False = Inr (Some 0, example_complex ''r'' 3)"
proof -
  have w: "is_worth_truncating example_search_env (example_complex ''r'' 3) example_sn2"
    by (rule example_search_env_simps)
  have t: "get_ts example_search_env (example_tss_reaction None) (example_complex ''r'' 3)
        (example_complex ''p'' 3) example_sn2 True = Inl TypeError"
    by (simp add: get_ts_def w example_get_truncated_ts)
  have f: "get_ts example_search_env (example_tss_reaction None) (example_complex ''r'' 3)
        (example_complex ''p'' 3) example_sn2 False = Inr (Some 0, example_complex ''r'' 3)"
    by (simp add: get_ts_def example_get_ts_no_strip)
  show ?thesis
    using get_ts_raises_when_truncating [OF w, of "example_tss_reaction None"
        "example_complex ''p'' 3"] w t f
    by blast
qed

lemma find_tss_no_rearrangement:
  "get_bond_rearrangs env (reactant_complex env (reacs reaction) ''r'')
     (product_complex env (prods reaction) ''p'') (reaction_name reaction) = None
   \<Longrightarrow> find_tss env reaction = Inr None"
  by (simp add: find_tss_def)

lemma find_tss_returns_no_empty_list:
  "find_tss env reaction \<noteq> Inr (Some [])"
  by (auto simp: find_tss_def Let_def split: option.splits sum.splits)

text \<open>
  C8 fails on the code: when the first rearrangement of the enumerator is worth
  truncating, \<open>find_tss\<close> raises (the exception of \<open>get_ts\<close> is not caught), where the
  claim has it return None or the list of the transition states found. With no
  rearrangement at all \<open>find_tss\<close> does return None, and it never returns an empty list.
\<close>

theorem find_tss_raises_when_truncating:
  assumes "get_bond_rearrangs env (reactant_complex env (reacs reaction) ''r'')
             (product_complex env (prods reaction) ''p'') (reaction_name reaction)
           = Some (br # rest)"
    and "is_worth_truncating env (reactant_complex env (reacs reaction) ''r'') br"
  shows "\<exists>e. find_tss env reaction = Inl e"
proof -
  let ?r = "reactant_complex env (reacs reaction) ''r''"
  let ?p = "product_complex env (prods reaction) ''p''"
  obtain e where "get_truncated_ts env reaction ?r ?p br = Inl e"
    using get_truncated_ts_raises by blast
  then have "get_ts env reaction ?r ?p br True = Inl e"
    using assms(2) by (simp add: get_ts_def)
  then have "find_tss_loop env reaction ?r ?p (br # rest) [] = Inl e"
    by simp
  then show ?thesis
    using assms(1) by (simp add: find_tss_def Let_def)
qed

theorem find_tss_raises_when_truncating_witness:
  "get_bond_rearrangs example_search_env
     (reactant_complex example_search_env (reacs (example_tss_reaction None)) ''r'')
     (product_complex example_search_env (prods (example_tss_reaction None)) ''p'')
     (reaction_name (example_tss_reaction None)) = Some [example_sn2]
   \<and> is_worth_truncating example_search_env
       (reactant_complex example_search_env (reacs (example_tss_reaction None)) ''r'')
       example_sn2
   \<and> (\<exists>e. find_tss example_search_env (example_tss_reaction None) = Inl e)
   \<and> find_tss example_search_env (example_tss_reaction None) = Inl TypeError
   \<and> find_tss (example_search_env\<lparr>is_worth_truncating := (\<lambda>c br. False)\<rparr>)
       (example_tss_reaction None) = Inr (Some [0])"
proof -
  have g: "get_bond_rearrangs example_search_env
     (reactant_complex example_search_env (reacs (example_tss_reaction None)) ''r'')
     (product_complex example_search_env (prods (example_tss_reaction None)) ''p'')
     (reaction_name (example_tss_reaction None)) = Some [example_sn2]"
    by (rule example_search_env_simps)
  have w: "is_worth_truncating example_search_env
       (reactant_complex example_search_env (reacs (example_tss_reaction None)) ''r'')
       example_sn2"
    by (rule example_search_env_simps)
  have t: "find_tss example_search_env (example_tss_reaction None) = Inl TypeError"
    by (simp add: find_tss_def get_ts_def Let_def example_search_env_simps
        example_get_truncated_ts)
  have e: "reactant_complex (example_search_env\<lparr>is_worth_truncating := (\<lambda>c br. False)\<rparr>) ms nm
             = example_complex nm 3"
          "product_complex (example_search_env\<lparr>is_worth_truncating := (\<lambda>c br. False)\<rparr>) ms nm
             = example_complex nm 3"
          "get_bond_rearrangs (example_search_env\<lparr>is_worth_truncating := (\<lambda>c br. False)\<rparr>) a b n
             = Some [example_sn2]" for ms nm a b n
    by (simp_all add: example_search_env_def)
  have f: "find_tss (example_search_env\<lparr>is_worth_truncating := (\<lambda>c br. False)\<rparr>)
       (example_tss_reaction None) = Inr (Some [0])"
    by (simp add: find_tss_def get_ts_def Let_def e example_search_env_simps
        example_get_ts_no_strip')
  show ?thesis
    using find_tss_raises_when_truncating [OF g w] g w t f by blast
qed

section \<open>Bonds made or broken along the imaginary mode\<close>

text \<open>
  A bond that the forward displacement makes, between atoms that are no metals and of
  which one is no active atom, is found.
\<close>

lemma no_metal_bonds_in_range:
  assumes "\<forall>b \<in> set bs. fst b < length ats \<and> snd b < length ats"
  shows "no_metal_bonds ms ats bs =
           Inr (filter (\<lambda>b. label (ats ! fst b) \<notin> set ms \<and> label (ats ! snd b) \<notin> set ms) bs)"
  using assms by (induction bs) (auto split: prod.splits)

lemma product_has_other_bonds_made:
  assumes "bond_rearrangement ts = Some br" and "atoms ts = Some ats"
    and "\<forall>b \<in> set product_edges. fst b < length ats \<and> snd b < length ats"
    and "(i, j) \<in> set product_edges" and "\<not> has_edge ts_edges (i, j)"
    and "label (ats ! i) \<notin> set (metals env)" and "label (ats ! j) \<notin> set (metals env)"
    and "i \<notin> set (active_atoms br) \<or> j \<notin> set (active_atoms br)"
  shows "product_has_other_bonds env ts ts_edges product_edges allow_mx = Inr True"
proof -
  let ?new = "filter (\<lambda>bond. \<not> has_edge ts_edges bond) product_edges"
  have in_new: "(i, j) \<in> set ?new" using assms(4,5) by simp
  have rng: "\<forall>b \<in> set ?new. fst b < length ats \<and> snd b < length ats"
    using assms(3) by simp
  let ?kept = "filter (\<lambda>b. label (ats ! fst b) \<notin> set (metals env)
                           \<and> label (ats ! snd b) \<notin> set (metals env)) ?new"
  have nm: "no_metal_bonds (metals env) ats ?new = Inr ?kept"
    using no_metal_bonds_in_range [OF rng] .
  have in_kept: "(i, j) \<in> set ?kept" using in_new assms(6,7) by simp
  have bad: "\<not> list_all (\<lambda>a. a \<in> set (active_atoms br))
                 (concat (map (\<lambda>b. [fst b, snd b]) bs))" if "(i, j) \<in> set bs" for bs
    using that assms(8) by (force simp: list_all_iff)
  show ?thesis
  proof (cases allow_mx)
    case True
    then show ?thesis
      using assms(1,2) nm bad [OF in_kept]
      by (simp add: product_has_other_bonds_def Let_def)
  next
    case False
    then show ?thesis
      using assms(1) bad [OF in_new]
      by (simp add: product_has_other_bonds_def Let_def)
  qed
qed

lemma made_bond_outside_active_atoms_rejected:
  assumes "bond_rearrangement ts = Some br" and "atoms ts = Some ats"
    and "\<forall>b \<in> set (make_graph env (3 / 10) f_species). fst b < length ats \<and> snd b < length ats"
    and "(i, j) \<in> set (make_graph env (3 / 10) f_species)"
    and "\<not> has_edge (make_graph env (3 / 10) (species.truncate ts)) (i, j)"
    and "label (ats ! i) \<notin> set (metals env)" and "label (ats ! j) \<notin> set (metals env)"
    and "i \<notin> set (active_atoms br) \<or> j \<notin> set (active_atoms br)"
  shows "imag_mode_generates_other_bonds env ts f_species b_species allow_mx = Inr True"
  using product_has_other_bonds_made [OF assms]
  by (simp add: imag_mode_generates_other_bonds_def Let_def)

text \<open>
  C2 fails on the code for bonds that break: \<open>imag_mode_generates_other_bonds\<close> looks
  only for bonds of a displaced species that the TS graph does not have, though its
  docstring speaks of displaced species that "break or make" bonds. In the candidate
  below the forward displacement takes atom 2, which is no active atom and no metal, out
  of its bond with atom 1; the displacement check accepts the candidate.
\<close>

theorem broken_bond_outside_active_atoms_accepted:
  "displaced_species_along_mode example_ts 6 1 (1 / 2) =
     Inr (Some \<lparr>species_name = ''ts_disp'',
                 atoms = Some [\<lparr>label = ''H'', coord = (3 / 10, 0, 0)\<rparr>,
                               \<lparr>label = ''H'', coord = (3, 0, 0)\<rparr>,
                               \<lparr>label = ''H'', coord = (44 / 10, 0, 0)\<rparr>],
                 species_charge = 0, mult = 1, graph = None, hessian = None,
                 imaginary_frequencies = None, normal_mode = (\<lambda>n. None)\<rparr>)
   \<and> has_edge (make_graph example_ts_env (3 / 10) (species.truncate example_ts)) (1, 2)
   \<and> \<not> has_edge (make_graph example_ts_env (3 / 10)
         \<lparr>species_name = ''ts_disp'',
          atoms = Some [\<lparr>label = ''H'', coord = (3 / 10, 0, 0)\<rparr>,
                        \<lparr>label = ''H'', coord = (3, 0, 0)\<rparr>,
                        \<lparr>label = ''H'', coord = (44 / 10, 0, 0)\<rparr>],
          species_charge = 0, mult = 1, graph = None, hessian = None,
          imaginary_frequencies = None, normal_mode = (\<lambda>n. None)\<rparr>) (1, 2)
   \<and> bond_rearrangement example_ts = Some \<lparr>fbonds = [(0, 1)], bbonds = []\<rparr>
   \<and> 2 \<notin> set (active_atoms \<lparr>fbonds = [(0, 1)], bbonds = []\<rparr>)
   \<and> ''H'' \<notin> set (metals example_ts_env)
   \<and> imag_mode_has_correct_displacement example_ts_env example_ts 1 (5 / 100) False = Inr True"
proof -
  have ax: "norm3 (x, 0, 0) = \<bar>x\<bar>" "vsub (a, 0, 0) (b, 0, 0) = (a - b, 0, 0)"
    "vadd (a, 0, 0) (b, 0, 0) = (a + b, 0, 0)" "smul k (b, 0, 0) = (k * b, 0, 0)"
    for x a b k :: real
    by (simp_all add: norm3_def vsub_def vadd_def smul_def)
  have f: "displaced_species_along_mode example_ts 6 1 (1 / 2) =
     Inr (Some \<lparr>species_name = ''ts_disp'',
                 atoms = Some [\<lparr>label = ''H'', coord = (3 / 10, 0, 0)\<rparr>,
                               \<lparr>label = ''H'', coord = (3, 0, 0)\<rparr>,
                               \<lparr>label = ''H'', coord = (44 / 10, 0, 0)\<rparr>],
                 species_charge = 0, mult = 1, graph = None, hessian = None,
                 imaginary_frequencies = None, normal_mode = (\<lambda>n. None)\<rparr>)"
    by (simp add: displaced_species_along_mode_def example_ts_def Let_def
          del: shrink_displacement.simps(2))
       (simp add: numeral_eq_Suc max_atom_displacement_def ax)
  have b: "displaced_species_along_mode example_ts 6 (- 1) (1 / 2) =
     Inr (Some \<lparr>species_name = ''ts_disp'',
                 atoms = Some [\<lparr>label = ''H'', coord = (- 3 / 10, 0, 0)\<rparr>,
                               \<lparr>label = ''H'', coord = (3, 0, 0)\<rparr>,
                               \<lparr>label = ''H'', coord = (36 / 10, 0, 0)\<rparr>],
                 species_charge = 0, mult = 1, graph = None, hessian = None,
                 imaginary_frequencies = None, normal_mode = (\<lambda>n. None)\<rparr>)"
    by (simp add: displaced_species_along_mode_def example_ts_def Let_def
          del: shrink_displacement.simps(2))
       (simp add: numeral_eq_Suc max_atom_displacement_def ax)
  have r: "imag_mode_has_correct_displacement example_ts_env example_ts 1 (5 / 100) False
             = Inr True"
    by (simp add: imag_mode_has_correct_displacement_def f b)
       (simp add: imag_mode_generates_other_bonds_def product_has_other_bonds_def
          example_ts_env_def example_ts_def species.defs has_edge_def correct_disps_def
          active_atoms_def all_bonds_def Let_def)
  have g: "has_edge (make_graph example_ts_env (3 / 10) (species.truncate example_ts)) (1, 2)"
    by (simp add: example_ts_env_def example_ts_def species.defs has_edge_def)
  show ?thesis
    using f r g
    by (simp add: example_ts_env_def example_ts_def has_edge_def active_atoms_def all_bonds_def)
qed

end
